theory Spec2Isabelle
  imports Complex_Main
begin

section \<open>The SE3 controller of rotorpy/controllers/quadrotor_control.py\<close>

text \<open>
  The controller computes with NumPy double-precision arrays.  Rounding is not modelled:
  a finite float is a real number.  What is modelled of IEEE arithmetic is the part that
  decides how the code behaves at its singular points: a division by zero and an
  operation on not-a-number do not raise in NumPy, they produce \<open>inf\<close>, \<open>-inf\<close> or
  \<open>nan\<close>, which then flow through every later operation.  (The sign of a zero is not
  modelled: a zero divisor counts as \<open>+0.0\<close>.)  The range of a double is modelled where
  it decides whether the controller divides by zero, in \<open>np.linalg.norm\<close>; what the
  factorisation inside \<open>np.linalg.inv\<close> does in double precision is a parameter.
\<close>

subsection \<open>NumPy floats\<close>

datatype npfloat = Fin real | PInf | MInf | NaN

instantiation npfloat :: "{zero, one, plus, uminus, minus, times, inverse}"
begin

definition zero_npfloat :: npfloat where
  "zero_npfloat = Fin 0"

definition one_npfloat :: npfloat where
  "one_npfloat = Fin 1"

fun plus_npfloat :: "npfloat \<Rightarrow> npfloat \<Rightarrow> npfloat" where
  "plus_npfloat (Fin a) (Fin b) = Fin (a + b)"
| "plus_npfloat NaN y = NaN"
| "plus_npfloat x NaN = NaN"
| "plus_npfloat PInf MInf = NaN"
| "plus_npfloat MInf PInf = NaN"
| "plus_npfloat PInf y = PInf"
| "plus_npfloat MInf y = MInf"
| "plus_npfloat (Fin a) y = y"

fun uminus_npfloat :: "npfloat \<Rightarrow> npfloat" where
  "uminus_npfloat (Fin a) = Fin (- a)"
| "uminus_npfloat PInf = MInf"
| "uminus_npfloat MInf = PInf"
| "uminus_npfloat NaN = NaN"

definition minus_npfloat :: "npfloat \<Rightarrow> npfloat \<Rightarrow> npfloat" where
  "minus_npfloat x y = x + (- y)"

fun times_npfloat :: "npfloat \<Rightarrow> npfloat \<Rightarrow> npfloat" where
  "times_npfloat (Fin a) (Fin b) = Fin (a * b)"
| "times_npfloat NaN y = NaN"
| "times_npfloat x NaN = NaN"
| "times_npfloat (Fin a) PInf = (if 0 < a then PInf else if a < 0 then MInf else NaN)"
| "times_npfloat (Fin a) MInf = (if 0 < a then MInf else if a < 0 then PInf else NaN)"
| "times_npfloat PInf (Fin b) = (if 0 < b then PInf else if b < 0 then MInf else NaN)"
| "times_npfloat MInf (Fin b) = (if 0 < b then MInf else if b < 0 then PInf else NaN)"
| "times_npfloat PInf PInf = PInf"
| "times_npfloat PInf MInf = MInf"
| "times_npfloat MInf PInf = MInf"
| "times_npfloat MInf MInf = PInf"

fun divide_npfloat :: "npfloat \<Rightarrow> npfloat \<Rightarrow> npfloat" where
  "divide_npfloat (Fin a) (Fin b) =
     (if b \<noteq> 0 then Fin (a / b)
      else if 0 < a then PInf else if a < 0 then MInf else NaN)"
| "divide_npfloat NaN y = NaN"
| "divide_npfloat x NaN = NaN"
| "divide_npfloat (Fin a) y = Fin 0"
| "divide_npfloat PInf (Fin b) = (if 0 \<le> b then PInf else MInf)"
| "divide_npfloat MInf (Fin b) = (if 0 \<le> b then MInf else PInf)"
| "divide_npfloat x y = NaN"

definition inverse_npfloat :: "npfloat \<Rightarrow> npfloat" where
  "inverse_npfloat x = divide (Fin 1) x"

instance ..

end

text \<open>\<open>np.abs\<close>, \<open>np.sign\<close>, \<open>np.sqrt\<close> on one element, and the comparison \<open>>\<close>.\<close>

fun np_abs :: "npfloat \<Rightarrow> npfloat" where
  "np_abs (Fin a) = Fin \<bar>a\<bar>"
| "np_abs PInf = PInf"
| "np_abs MInf = PInf"
| "np_abs NaN = NaN"

fun np_sign :: "npfloat \<Rightarrow> npfloat" where
  "np_sign (Fin a) = Fin (sgn a)"
| "np_sign PInf = Fin 1"
| "np_sign MInf = Fin (- 1)"
| "np_sign NaN = NaN"

fun np_sqrt :: "npfloat \<Rightarrow> npfloat" where
  "np_sqrt (Fin a) = (if a < 0 then NaN else Fin (sqrt a))"
| "np_sqrt PInf = PInf"
| "np_sqrt MInf = NaN"
| "np_sqrt NaN = NaN"

fun np_gt :: "npfloat \<Rightarrow> npfloat \<Rightarrow> bool" where
  "np_gt (Fin a) (Fin b) = (b < a)"
| "np_gt NaN y = False"
| "np_gt x NaN = False"
| "np_gt PInf PInf = False"
| "np_gt PInf y = True"
| "np_gt MInf y = False"
| "np_gt (Fin a) PInf = False"
| "np_gt (Fin a) MInf = True"

fun is_finite :: "npfloat \<Rightarrow> bool" where
  "is_finite (Fin a) = True"
| "is_finite x = False"

text \<open>
  The range of a double, without its precision: a result of magnitude at most
  \<open>2\<^sup>-\<^sup>1\<^sup>0\<^sup>7\<^sup>5\<close>, half the smallest positive double, is rounded to zero, and one of
  magnitude at least \<open>2\<^sup>1\<^sup>0\<^sup>2\<^sup>4 - 2\<^sup>9\<^sup>7\<^sup>0\<close>, half an ulp above the largest double, to an
  infinity.
\<close>

definition double_overflow :: real where
  "double_overflow = 2 ^ 1024 - 2 ^ 970"

definition double_underflow :: real where
  "double_underflow = 1 / 2 ^ 1075"

definition round_range :: "real \<Rightarrow> npfloat" where
  "round_range r =
     (if double_overflow \<le> r then PInf
      else if r \<le> - double_overflow then MInf
      else if \<bar>r\<bar> \<le> double_underflow then Fin 0
      else Fin r)"

fun to_double :: "npfloat \<Rightarrow> npfloat" where
  "to_double (Fin r) = round_range r"
| "to_double x = x"

subsection \<open>Small vectors and matrices\<close>

text \<open>
  A length-3 array is a \<open>vec3\<close>, a 3x3 array a \<open>mat3\<close> of its three rows.  The
  operations are the NumPy ones the controller calls, on any element type that has the
  arithmetic: the constructor applies them to the reals of the vehicle parameters, the
  control step to NumPy floats.  \<open>map_vec3\<close> and \<open>map_mat3\<close>, which come with the
  two types, apply a function to every entry; with \<open>Fin\<close> they turn an array of reals
  into the array of floats it is.
\<close>

datatype 'a vec3 = Vec3 'a 'a 'a

datatype 'a mat3 = Mat3 "'a vec3" "'a vec3" "'a vec3"

fun vec_x :: "'a vec3 \<Rightarrow> 'a" where
  "vec_x (Vec3 a0 a1 a2) = a0"

fun vec_y :: "'a vec3 \<Rightarrow> 'a" where
  "vec_y (Vec3 a0 a1 a2) = a1"

fun vec_z :: "'a vec3 \<Rightarrow> 'a" where
  "vec_z (Vec3 a0 a1 a2) = a2"

fun add3 :: "'a::plus vec3 \<Rightarrow> 'a vec3 \<Rightarrow> 'a vec3" where
  "add3 (Vec3 a0 a1 a2) (Vec3 b0 b1 b2) = Vec3 (a0 + b0) (a1 + b1) (a2 + b2)"

fun sub3 :: "'a::minus vec3 \<Rightarrow> 'a vec3 \<Rightarrow> 'a vec3" where
  "sub3 (Vec3 a0 a1 a2) (Vec3 b0 b1 b2) = Vec3 (a0 - b0) (a1 - b1) (a2 - b2)"

fun mul3 :: "'a::times vec3 \<Rightarrow> 'a vec3 \<Rightarrow> 'a vec3" where
  "mul3 (Vec3 a0 a1 a2) (Vec3 b0 b1 b2) = Vec3 (a0 * b0) (a1 * b1) (a2 * b2)"

fun neg3 :: "'a::uminus vec3 \<Rightarrow> 'a vec3" where
  "neg3 (Vec3 a0 a1 a2) = Vec3 (- a0) (- a1) (- a2)"

fun scale3 :: "'a::times \<Rightarrow> 'a vec3 \<Rightarrow> 'a vec3" where
  "scale3 s (Vec3 a0 a1 a2) = Vec3 (s * a0) (s * a1) (s * a2)"

fun dot3 :: "'a::{plus,times} vec3 \<Rightarrow> 'a vec3 \<Rightarrow> 'a" where
  "dot3 (Vec3 a0 a1 a2) (Vec3 b0 b1 b2) = a0 * b0 + a1 * b1 + a2 * b2"

fun cross :: "'a::{minus,times} vec3 \<Rightarrow> 'a vec3 \<Rightarrow> 'a vec3" where
  "cross (Vec3 a0 a1 a2) (Vec3 b0 b1 b2) =
     Vec3 (a1 * b2 - a2 * b1) (a2 * b0 - a0 * b2) (a0 * b1 - a1 * b0)"

fun transpose3 :: "'a mat3 \<Rightarrow> 'a mat3" where
  "transpose3 (Mat3 (Vec3 a00 a01 a02) (Vec3 a10 a11 a12) (Vec3 a20 a21 a22)) =
     Mat3 (Vec3 a00 a10 a20) (Vec3 a01 a11 a21) (Vec3 a02 a12 a22)"

fun matvec3 :: "'a::{plus,times} mat3 \<Rightarrow> 'a vec3 \<Rightarrow> 'a vec3" where
  "matvec3 (Mat3 r0 r1 r2) u = Vec3 (dot3 r0 u) (dot3 r1 u) (dot3 r2 u)"

fun matmul3 :: "'a::{plus,times} mat3 \<Rightarrow> 'a mat3 \<Rightarrow> 'a mat3" where
  "matmul3 (Mat3 r0 r1 r2) B =
     (case transpose3 B of
        Mat3 c0 c1 c2 \<Rightarrow>
          Mat3 (Vec3 (dot3 r0 c0) (dot3 r0 c1) (dot3 r0 c2))
               (Vec3 (dot3 r1 c0) (dot3 r1 c1) (dot3 r1 c2))
               (Vec3 (dot3 r2 c0) (dot3 r2 c1) (dot3 r2 c2)))"

fun sub_mat3 :: "'a::minus mat3 \<Rightarrow> 'a mat3 \<Rightarrow> 'a mat3" where
  "sub_mat3 (Mat3 r0 r1 r2) (Mat3 s0 s1 s2) = Mat3 (sub3 r0 s0) (sub3 r1 s1) (sub3 r2 s2)"

fun scale_mat3 :: "'a::times \<Rightarrow> 'a mat3 \<Rightarrow> 'a mat3" where
  "scale_mat3 s (Mat3 r0 r1 r2) = Mat3 (scale3 s r0) (scale3 s r1) (scale3 s r2)"


subsection \<open>Python and NumPy exceptions\<close>

datatype error = ZeroDivisionError | ValueError | LinAlgError

subsection \<open>Arrays of any length: the allocation matrices\<close>

text \<open>
  A two-dimensional array whose width depends on the number of rotors is the list of its
  rows.

  \<open>np.linalg.inv\<close> raises \<open>LinAlgError\<close> on an array that is not square.  A square
  array it factorises in double precision: it raises \<open>LinAlgError\<close> when a pivot of the
  factorisation is exactly zero, and returns an array of the shape of its argument
  otherwise.  Whether a pivot is exactly zero, and the entries returned, depend on the
  rounding of the factorisation: on a singular array NumPy often meets no zero pivot and
  returns an array that is no inverse.  So the factorisation is a parameter \<open>solve\<close> of
  the model: \<open>solve M\<close> is \<open>None\<close> when it raises and the entries of the array it
  returns otherwise.

  \<open>exact_solve\<close> is the factorisation without rounding: it raises on a zero
  determinant and returns the inverse otherwise, the transposed matrix of cofactors
  divided by the determinant (the determinant by expansion along the first row).
\<close>

definition minor_mat :: "real list list \<Rightarrow> nat \<Rightarrow> nat \<Rightarrow> real list list" where
  "minor_mat M i j =
     map (\<lambda>row. take j row @ drop (Suc j) row) (take i M @ drop (Suc i) M)"

primrec det_n :: "nat \<Rightarrow> real list list \<Rightarrow> real" where
  "det_n 0 M = 1"
| "det_n (Suc n) M =
     (\<Sum>j\<leftarrow>[0..<Suc n]. (- 1) ^ j * (M ! 0 ! j) * det_n n (minor_mat M 0 j))"

definition det :: "real list list \<Rightarrow> real" where
  "det M = det_n (length M) M"

definition cofactor :: "real list list \<Rightarrow> nat \<Rightarrow> nat \<Rightarrow> real" where
  "cofactor M i j = (- 1) ^ (i + j) * det (minor_mat M i j)"

definition is_square :: "real list list \<Rightarrow> bool" where
  "is_square M = list_all (\<lambda>row. length row = length M) M"

definition linalg_inv ::
  "(real list list \<Rightarrow> (nat \<Rightarrow> nat \<Rightarrow> real) option) \<Rightarrow> real list list
     \<Rightarrow> error + real list list" where
  "linalg_inv solve M =
     (if \<not> is_square M then Inl LinAlgError
      else
        case solve M of
          None \<Rightarrow> Inl LinAlgError
        | Some W \<Rightarrow> Inr (map (\<lambda>i. map (\<lambda>j. W i j) [0..<length M]) [0..<length M]))"

definition exact_solve :: "real list list \<Rightarrow> (nat \<Rightarrow> nat \<Rightarrow> real) option" where
  "exact_solve M = (if det M = 0 then None else Some (\<lambda>i j. cofactor M j i / det M))"

text \<open>The matrix product \<open>A @ B\<close> of two-dimensional arrays, and \<open>np.eye\<close>.\<close>

definition matmul :: "real list list \<Rightarrow> real list list \<Rightarrow> real list list" where
  "matmul A B =
     map (\<lambda>row. map (\<lambda>j. (\<Sum>k\<leftarrow>[0..<length B]. row ! k * (B ! k ! j))) [0..<(case B of [] \<Rightarrow> 0 | r # rs \<Rightarrow> length r)]) A"

definition eye :: "nat \<Rightarrow> real list list" where
  "eye n = map (\<lambda>i. map (\<lambda>j. if i = j then 1 else 0) [0..<n]) [0..<n]"

text \<open>
  The product \<open>M @ v\<close> of a two-dimensional array of reals with a one-dimensional array
  of floats: NumPy raises \<open>ValueError\<close> unless every row is as long as \<open>v\<close>.
\<close>

definition np_dot :: "npfloat list \<Rightarrow> npfloat list \<Rightarrow> npfloat" where
  "np_dot xs ys = foldl (+) (Fin 0) (map2 (*) xs ys)"

definition matvec :: "real list list \<Rightarrow> npfloat list \<Rightarrow> error + npfloat list" where
  "matvec M u =
     (if list_all (\<lambda>row. length row = length u) M
      then Inr (map (\<lambda>row. np_dot (map Fin row) u) M)
      else Inl ValueError)"

subsection \<open>The vehicle parameters and the controller object\<close>

text \<open>
  \<open>quad_params\<close> is the dictionary the constructor reads, one field for each key it
  looks up.  \<open>rotor_pos\<close> is itself a dictionary from a rotor's name to its position;
  the constructor iterates over it, so it is the list of its items in iteration order.
  The controller object holds a copy of every parameter under the same name, and the
  attributes the constructor derives.
\<close>

record quad_params =
  mass :: real
  Ixx :: real
  Iyy :: real
  Izz :: real
  Ixy :: real
  Ixz :: real
  Iyz :: real
  c_Dx :: real
  c_Dy :: real
  c_Dz :: real
  num_rotors :: int
  rotor_pos :: "(string \<times> real vec3) list"
  rotor_speed_min :: real
  rotor_speed_max :: real
  k_eta :: real
  k_m :: real
  k_d :: real
  k_z :: real
  k_flap :: real
  tau_m :: real

record SE3Control = quad_params +
  inertia :: "real mat3"
  g :: real
  kp_pos :: "real vec3"
  kd_pos :: "real vec3"
  kp_att :: real
  kd_att :: real
  f_to_TM :: "real list list"
  TM_to_f :: "real list list"

subsection \<open>The constructor\<close>

text \<open>
  Lines 59 and 63: the quotient \<open>k_m / k_eta\<close> of two Python floats raises
  \<open>ZeroDivisionError\<close> when \<open>k_eta\<close> is zero; \<open>np.ones\<close> raises \<open>ValueError\<close> on a
  negative length, \<open>np.hstack\<close> on an empty list of columns, and \<open>np.vstack\<close> when
  the three blocks differ in width.  Line 64 inverts the matrix; the constructor takes
  the factorisation \<open>solve\<close> of \<open>np.linalg.inv\<close> as its first argument.
\<close>

definition build_f_to_TM :: "'a quad_params_scheme \<Rightarrow> error + real list list" where
  "build_f_to_TM quad =
     (if k_eta quad = 0 then Inl ZeroDivisionError
      else
        let k = k_m quad / k_eta quad in
        if num_rotors quad < 0 then Inl ValueError
        else if rotor_pos quad = [] then Inl ValueError
        else if int (length (rotor_pos quad)) \<noteq> num_rotors quad then Inl ValueError
        else Inr
          [map (\<lambda>i. 1) [0..<nat (num_rotors quad)],
           map (\<lambda>(key, r). vec_x (cross r (Vec3 0 0 1))) (rotor_pos quad),
           map (\<lambda>(key, r). vec_y (cross r (Vec3 0 0 1))) (rotor_pos quad),
           map (\<lambda>i. k * (- 1) ^ i) [0..<nat (num_rotors quad)]])"

definition SE3Control_init ::
  "(real list list \<Rightarrow> (nat \<Rightarrow> nat \<Rightarrow> real) option) \<Rightarrow> quad_params \<Rightarrow> error + SE3Control" where
  "SE3Control_init solve quad =
     (case build_f_to_TM quad of
        Inl e \<Rightarrow> Inl e
      | Inr F \<Rightarrow>
          (case linalg_inv solve F of
             Inl e \<Rightarrow> Inl e
           | Inr T \<Rightarrow>
               Inr (quad_params.extend quad
                 (SE3Control.fields
                    (Mat3 (Vec3 (Ixx quad) (Ixy quad) (Ixz quad))
                          (Vec3 (Ixy quad) (Iyy quad) (Iyz quad))
                          (Vec3 (Ixz quad) (Iyz quad) (Izz quad)))
                    (981 / 100)
                    (Vec3 (13 / 2) (13 / 2) 15)
                    (Vec3 4 4 9)
                    544
                    (4664 / 100)
                    F T))))"


subsection \<open>Rotations: the SciPy calls\<close>

datatype 'a vec4 = Vec4 'a 'a 'a 'a

text \<open>
  \<open>Rotation.from_quat(q).as_matrix()\<close>, for a quaternion in the order \<open>[i, j, k, w]\<close>:
  SciPy normalises the quaternion, raising \<open>ValueError\<close> when its norm is zero, and
  returns the rotation matrix of the unit quaternion.
\<close>

fun from_quat_as_matrix :: "real vec4 \<Rightarrow> error + real mat3" where
  "from_quat_as_matrix (Vec4 qi qj qk qw) =
     (let n = sqrt (qi * qi + qj * qj + qk * qk + qw * qw) in
      if n = 0 then Inl ValueError
      else
        let x = qi / n; y = qj / n; z = qk / n; w = qw / n in
        Inr (Mat3
          (Vec3 (x * x - y * y - z * z + w * w) (2 * (x * y - z * w)) (2 * (x * z + y * w)))
          (Vec3 (2 * (x * y + z * w)) (- (x * x) + y * y - z * z + w * w) (2 * (y * z - x * w)))
          (Vec3 (2 * (x * z - y * w)) (2 * (y * z + x * w)) (- (x * x) - y * y + z * z + w * w))))"

text \<open>
  \<open>Rotation.from_matrix(R).as_quat()\<close> is a parameter of the control step: what SciPy
  does with a matrix that is no rotation differs between its releases (on a matrix of
  not-a-number the older ones return a quaternion of not-a-number, SciPy 1.17 raises
  \<open>LinAlgError\<close>), and the controller passes it what it has.  \<open>matrix_as_quat\<close> is
  one such conversion: it raises \<open>LinAlgError\<close> on a matrix with an entry that is not
  finite, and otherwise the largest of the three diagonal entries and the trace selects
  the formula, and the result is normalised.  It is applied below to proper rotations
  and to matrices of not-a-number only.
\<close>

definition argmax4 :: "npfloat \<Rightarrow> npfloat \<Rightarrow> npfloat \<Rightarrow> npfloat \<Rightarrow> nat" where
  "argmax4 d0 d1 d2 d3 =
     (let i1 = (if np_gt d1 d0 then 1 else 0);
          v1 = (if np_gt d1 d0 then d1 else d0);
          i2 = (if np_gt d2 v1 then 2 else i1);
          v2 = (if np_gt d2 v1 then d2 else v1)
      in if np_gt d3 v2 then 3 else i2)"

fun normalize4 :: "npfloat vec4 \<Rightarrow> npfloat vec4" where
  "normalize4 (Vec4 a0 a1 a2 a3) =
     (let n = np_sqrt (a0 * a0 + a1 * a1 + a2 * a2 + a3 * a3)
      in Vec4 (a0 / n) (a1 / n) (a2 / n) (a3 / n))"

fun matrix_as_quat :: "npfloat mat3 \<Rightarrow> error + npfloat vec4" where
  "matrix_as_quat (Mat3 (Vec3 m00 m01 m02) (Vec3 m10 m11 m12) (Vec3 m20 m21 m22)) =
     (if \<not> list_all is_finite [m00, m01, m02, m10, m11, m12, m20, m21, m22]
      then Inl LinAlgError
      else
        let tr = m00 + m11 + m22;
            choice = argmax4 m00 m11 m22 tr
        in Inr (normalize4
             (if choice = 0 then
                Vec4 (Fin 1 - tr + Fin 2 * m00) (m10 + m01) (m20 + m02) (m21 - m12)
              else if choice = 1 then
                Vec4 (m01 + m10) (Fin 1 - tr + Fin 2 * m11) (m21 + m12) (m02 - m20)
              else if choice = 2 then
                Vec4 (m02 + m20) (m12 + m21) (Fin 1 - tr + Fin 2 * m22) (m10 - m01)
              else
                Vec4 (m21 - m12) (m02 - m20) (m10 - m01) (Fin 1 + tr))))"

subsection \<open>The control step\<close>

text \<open>
  The two dictionaries \<open>update\<close> reads and the one it returns.  The keys \<open>x\<close>, \<open>v\<close>,
  \<open>q\<close>, \<open>w\<close> of the state are the fields \<open>st_x\<close>, \<open>st_v\<close>, \<open>st_q\<close>, \<open>st_w\<close>, and
  the key \<open>x\<close> of the flat output is \<open>fl_x\<close>; every other key keeps its name.  The
  caller's values are finite floats.
\<close>

record state =
  st_x :: "real vec3"
  st_v :: "real vec3"
  st_q :: "real vec4"
  st_w :: "real vec3"

record flat_output =
  fl_x :: "real vec3"
  x_dot :: "real vec3"
  x_ddot :: "real vec3"
  x_dddot :: "real vec3"
  x_ddddot :: "real vec3"
  yaw :: real
  yaw_dot :: real

record control_input =
  cmd_motor_speeds :: "npfloat list"
  cmd_thrust :: npfloat
  cmd_moment :: "npfloat vec3"
  cmd_q :: "npfloat vec4"

text \<open>
  The two local functions of \<open>update\<close> (lines 99 to 105).  \<open>np.linalg.norm\<close> of a
  vector is the square root of its dot product with itself, computed in doubles: every
  square and every partial sum is rounded into the range of a double.  So a vector that
  is not zero has the norm \<open>0.0\<close> when its squares underflow (entries below about
  \<open>1.5e-162\<close>), and \<open>normalize\<close> then divides by zero as it does for the zero vector.
\<close>

fun norm3 :: "npfloat vec3 \<Rightarrow> npfloat" where
  "norm3 (Vec3 a0 a1 a2) =
     np_sqrt (to_double (to_double (to_double (a0 * a0) + to_double (a1 * a1))
                         + to_double (a2 * a2)))"

definition normalize :: "npfloat vec3 \<Rightarrow> npfloat vec3" where
  "normalize u = map_vec3 (\<lambda>a. a / norm3 u) u"

fun vee_map :: "'a::uminus mat3 \<Rightarrow> 'a vec3" where
  "vee_map (Mat3 (Vec3 s00 s01 s02) (Vec3 s10 s11 s12) (Vec3 s20 s21 s22)) =
     Vec3 (- s12) s02 (- s01)"

text \<open>
  The skew-symmetric matrix of a vector, as the specification describes it: the code has
  no such function, it only reads a skew-symmetric matrix with \<open>vee_map\<close>.
\<close>

fun skew :: "'a::{zero,uminus} vec3 \<Rightarrow> 'a mat3" where
  "skew (Vec3 vx vy vz) =
     Mat3 (Vec3 0 (- vz) vy) (Vec3 vz 0 (- vx)) (Vec3 (- vy) vx 0)"

text \<open>Lines 108 to 113: the desired force.\<close>

definition desired_force :: "SE3Control \<Rightarrow> state \<Rightarrow> flat_output \<Rightarrow> npfloat vec3" where
  "desired_force self st flat =
     (let pos_err = sub3 (map_vec3 Fin (st_x st)) (map_vec3 Fin (fl_x flat));
          dpos_err = sub3 (map_vec3 Fin (st_v st)) (map_vec3 Fin (x_dot flat))
      in scale3 (Fin (mass self))
           (add3
              (add3
                 (sub3 (mul3 (neg3 (map_vec3 Fin (kp_pos self))) pos_err)
                       (mul3 (map_vec3 Fin (kd_pos self)) dpos_err))
                 (map_vec3 Fin (x_ddot flat)))
              (Vec3 (Fin 0) (Fin 0) (Fin (g self)))))"

text \<open>Lines 121 to 126: the desired orientation.\<close>

definition desired_rotation :: "npfloat vec3 \<Rightarrow> real \<Rightarrow> npfloat mat3" where
  "desired_rotation F_des yaw_des =
     (let b3_des = normalize F_des;
          c1_des = Vec3 (Fin (cos yaw_des)) (Fin (sin yaw_des)) (Fin 0);
          b2_des = normalize (cross b3_des c1_des);
          b1_des = cross b2_des b3_des
      in transpose3 (Mat3 b1_des b2_des b3_des))"

text \<open>Lines 142 and 143: from the force of one rotor to its speed.\<close>

definition force_to_speed :: "real \<Rightarrow> npfloat \<Rightarrow> npfloat" where
  "force_to_speed keta f =
     (let speed = f / Fin keta in np_sign speed * np_sqrt (np_abs speed))"

text \<open>
  \<open>update\<close> returns the command together with the controller object as the call leaves
  it.  An exception of \<open>from_quat\<close> (line 116), of the matrix product (line 141) or of
  \<open>from_matrix\<close> (line 147) leaves the call.
\<close>

definition update ::
  "(npfloat mat3 \<Rightarrow> error + npfloat vec4) \<Rightarrow> SE3Control \<Rightarrow> real \<Rightarrow> state \<Rightarrow> flat_output
     \<Rightarrow> error + control_input \<times> SE3Control" where
  "update from_matrix_as_quat self t st flat =
     (let F_des = desired_force self st flat in
      case from_quat_as_matrix (st_q st) of
        Inl e \<Rightarrow> Inl e
      | Inr Rq \<Rightarrow>
          (let R = map_mat3 Fin Rq;
               b3 = matvec3 R (Vec3 (Fin 0) (Fin 0) (Fin 1));
               u1 = dot3 F_des b3;
               R_des = desired_rotation F_des (yaw flat);
               S_err = scale_mat3 (Fin (1 / 2))
                         (sub_mat3 (matmul3 (transpose3 R_des) R) (matmul3 (transpose3 R) R_des));
               att_err = vee_map S_err;
               w_des = Vec3 (Fin 0) (Fin 0) (Fin (yaw_dot flat));
               w_err = sub3 (map_vec3 Fin (st_w st)) w_des;
               u2 = matvec3 (map_mat3 Fin (inertia self))
                      (sub3 (scale3 (- Fin (kp_att self)) att_err) (scale3 (Fin (kd_att self)) w_err));
               TM = [u1, vec_x u2, vec_y u2, vec_z u2]
           in (case matvec (TM_to_f self) TM of
                 Inl e \<Rightarrow> Inl e
               | Inr cmd_motor_forces \<Rightarrow>
                   (case from_matrix_as_quat R_des of
                      Inl e \<Rightarrow> Inl e
                    | Inr quat \<Rightarrow>
                        Inr (\<lparr>cmd_motor_speeds = map (force_to_speed (k_eta self)) cmd_motor_forces,
                              cmd_thrust = u1,
                              cmd_moment = u2,
                              cmd_q = quat\<rparr>, self)))))"

subsection \<open>Example vehicles\<close>

text \<open>
  The quadrotor of the specification's scenario (rotors at the corners of a square of side
  0.2 m, \<open>k_eta = 1e-6\<close>, \<open>k_m = 1e-7\<close>), and three variations of its rotor layout:
  four rotors on one line, six rotors, and three rotors.  \<open>dependent_params\<close> is a
  vehicle whose parameters are all doubles, with four rotors at \<open>(3, 7)\<close>, \<open>(5, 10)\<close>,
  \<open>(7, 13)\<close>, \<open>(9, 16)\<close>: the y coordinates are \<open>1.5 x + 2.5\<close>, so the three upper rows of
  its allocation matrix are linearly dependent.
\<close>

definition example_params :: quad_params where
  "example_params =
     \<lparr>mass = 1 / 2, Ixx = 3 / 1000, Iyy = 3 / 1000, Izz = 5 / 1000, Ixy = 0, Ixz = 0, Iyz = 0,
      c_Dx = 0, c_Dy = 0, c_Dz = 0,
      num_rotors = 4,
      rotor_pos = [(''r1'', Vec3 (1 / 10) (1 / 10) 0), (''r2'', Vec3 (- 1 / 10) (1 / 10) 0),
                   (''r3'', Vec3 (- 1 / 10) (- 1 / 10) 0), (''r4'', Vec3 (1 / 10) (- 1 / 10) 0)],
      rotor_speed_min = 0, rotor_speed_max = 1500,
      k_eta = 1 / 1000000, k_m = 1 / 10000000, k_d = 0, k_z = 0, k_flap = 0, tau_m = 1 / 200\<rparr>"


definition hexa_params :: quad_params where
  "hexa_params =
     example_params\<lparr>num_rotors := 6, rotor_pos :=
       [(''r1'', Vec3 (2 / 10) 0 0), (''r2'', Vec3 (1 / 10) (17 / 100) 0),
        (''r3'', Vec3 (- 1 / 10) (17 / 100) 0), (''r4'', Vec3 (- 2 / 10) 0 0),
        (''r5'', Vec3 (- 1 / 10) (- 17 / 100) 0), (''r6'', Vec3 (1 / 10) (- 17 / 100) 0)]\<rparr>"

definition tri_params :: quad_params where
  "tri_params =
     example_params\<lparr>num_rotors := 3, rotor_pos :=
       [(''r1'', Vec3 (2 / 10) 0 0), (''r2'', Vec3 (- 1 / 10) (17 / 100) 0),
        (''r3'', Vec3 (- 1 / 10) (- 17 / 100) 0)]\<rparr>"


text \<open>
  The controllers the constructor returns for the example quadrotor and for the same
  vehicle with a negative mass (the matrix of the example is inverted without rounding),
  a state at rest (upright, and turned upside down about the x axis), a desired hover at
  the position of the state, and a desired free fall.  \<open>origin_flat\<close> is the free fall
  at the origin, and \<open>offset_state\<close> the state at rest \<open>2\<^sup>-\<^sup>6\<^sup>0\<^sup>0\<close> m away from it along x.
\<close>

definition example_control :: SE3Control where
  "example_control = projr (SE3Control_init exact_solve example_params)"

definition negative_mass_params :: quad_params where
  "negative_mass_params = example_params\<lparr>mass := - 1\<rparr>"

definition negative_mass_control :: SE3Control where
  "negative_mass_control = projr (SE3Control_init exact_solve negative_mass_params)"

definition hover_state :: state where
  "hover_state = \<lparr>st_x = Vec3 1 2 3, st_v = Vec3 0 0 0, st_q = Vec4 0 0 0 1, st_w = Vec3 0 0 0\<rparr>"

definition flipped_state :: state where
  "flipped_state = hover_state\<lparr>st_q := Vec4 1 0 0 0\<rparr>"

definition hover_flat :: flat_output where
  "hover_flat = \<lparr>fl_x = Vec3 1 2 3, x_dot = Vec3 0 0 0, x_ddot = Vec3 0 0 0,
     x_dddot = Vec3 0 0 0, x_ddddot = Vec3 0 0 0, yaw = 0, yaw_dot = 0\<rparr>"




section \<open>Properties\<close>

subsection \<open>The vee map and the signed square root\<close>

lemma neg_neg_npfloat: "- (- x) = (x::npfloat)"
  by (cases x) simp_all

text \<open>
  Claim C9.  For every 3-vector \<open>v\<close>, \<open>vee_map\<close> applied to the skew-symmetric matrix
  of \<open>v\<close> returns \<open>v\<close> exactly; this holds for vectors of reals and for vectors of
  NumPy floats, infinities and not-a-number included.
\<close>

theorem vee_map_skew:
  "vee_map (skew v) = (v::npfloat vec3) \<and> vee_map (skew u) = (u::real vec3)"
  by (cases v; cases u) (simp add: neg_neg_npfloat)

lemma signed_sqrt_real:
  "sgn (sgn x * sqrt \<bar>x\<bar>) * (sgn x * sqrt \<bar>x\<bar> * (sgn x * sqrt \<bar>x\<bar>)) = (x::real)"
proof (cases x "0::real" rule: linorder_cases)
  case less
  then have "sqrt \<bar>x\<bar> > 0" by simp
  then have "sgn (- sqrt \<bar>x\<bar>) = - 1" by (simp add: sgn_if)
  with less show ?thesis by (simp add: sgn_if)
next
  case equal
  then show ?thesis by simp
next
  case greater
  then have "sqrt \<bar>x\<bar> > 0" by simp
  then have "sgn (sqrt \<bar>x\<bar>) = 1" by (simp add: sgn_if)
  with greater show ?thesis by (simp add: sgn_if)
qed

text \<open>
  Claim C6, as the code has it.  The speed \<open>s\<close> computed from a rotor force \<open>f\<close> is the
  signed square root of \<open>f / k_eta\<close>, so squaring it and restoring its sign recovers
  \<open>f / k_eta\<close>, not \<open>f\<close>: the guard is lossless for the quotient.  This holds for every
  float \<open>f\<close> and every \<open>k_eta\<close>.
\<close>

theorem signed_sqrt_recovers_quotient:
  "np_sign (force_to_speed keta f) * (force_to_speed keta f * force_to_speed keta f)
     = f / Fin keta"
proof (cases f)
  case (Fin r)
  show ?thesis
  proof (cases "keta = 0")
    case True
    then show ?thesis using Fin by (simp add: force_to_speed_def)
  next
    case False
    then show ?thesis using Fin signed_sqrt_real [of "r / keta"]
      by (simp add: force_to_speed_def del: real_sqrt_abs2 real_sqrt_divide abs_divide)
  qed
next
  case PInf
  then show ?thesis by (simp add: force_to_speed_def)
next
  case MInf
  then show ?thesis by (simp add: force_to_speed_def)
next
  case NaN
  then show ?thesis by (simp add: force_to_speed_def)
qed

text \<open>
  Claim C6, as stated, fails: with \<open>k_eta = 2\<close> the force \<open>2\<close> gives the speed \<open>1\<close>,
  and \<open>sign(1) * 1\<^sup>2 = 1\<close> is not the force.
\<close>

theorem signed_sqrt_not_force:
  "np_sign (force_to_speed 2 (Fin 2)) * (force_to_speed 2 (Fin 2) * force_to_speed 2 (Fin 2))
     \<noteq> Fin 2"
  by (simp add: force_to_speed_def)

subsection \<open>The inverse of a 4x4 array\<close>

lemma det4_expand:
  "det [[ah, ai, aj, ak], [bh, bi, bj, bk], [ch, ci, cj, ck], [dh, di, dj, dk]] =
     ah * ((bi * (cj * dk - ck * dj) - bj * (ci * dk - ck * di) + bk * (ci * dj - cj * di))) + ai * (- (bh * (cj * dk - ck * dj) - bj * (ch * dk - ck * dh) + bk * (ch * dj - cj * dh))) + aj * ((bh * (ci * dk - ck * di) - bi * (ch * dk - ck * dh) + bk * (ch * di - ci * dh))) + ak * (- (bh * (ci * dj - cj * di) - bi * (ch * dj - cj * dh) + bj * (ch * di - ci * dh)))"
  by (simp add: det_def minor_mat_def upt_rec numeral_eq_Suc algebra_simps)

lemma cofactor4_00:
  "cofactor [[ah, ai, aj, ak], [bh, bi, bj, bk], [ch, ci, cj, ck], [dh, di, dj, dk]] 0 0 =
     (bi * (cj * dk - ck * dj) - bj * (ci * dk - ck * di) + bk * (ci * dj - cj * di))"
  by (simp add: cofactor_def det_def minor_mat_def upt_rec numeral_eq_Suc algebra_simps)

lemma cofactor4_01:
  "cofactor [[ah, ai, aj, ak], [bh, bi, bj, bk], [ch, ci, cj, ck], [dh, di, dj, dk]] 0 (Suc 0) =
     - (bh * (cj * dk - ck * dj) - bj * (ch * dk - ck * dh) + bk * (ch * dj - cj * dh))"
  by (simp add: cofactor_def det_def minor_mat_def upt_rec numeral_eq_Suc algebra_simps)

lemma cofactor4_02:
  "cofactor [[ah, ai, aj, ak], [bh, bi, bj, bk], [ch, ci, cj, ck], [dh, di, dj, dk]] 0 (Suc (Suc 0)) =
     (bh * (ci * dk - ck * di) - bi * (ch * dk - ck * dh) + bk * (ch * di - ci * dh))"
  by (simp add: cofactor_def det_def minor_mat_def upt_rec numeral_eq_Suc algebra_simps)

lemma cofactor4_03:
  "cofactor [[ah, ai, aj, ak], [bh, bi, bj, bk], [ch, ci, cj, ck], [dh, di, dj, dk]] 0 (Suc (Suc (Suc 0))) =
     - (bh * (ci * dj - cj * di) - bi * (ch * dj - cj * dh) + bj * (ch * di - ci * dh))"
  by (simp add: cofactor_def det_def minor_mat_def upt_rec numeral_eq_Suc algebra_simps)

lemma cofactor4_10:
  "cofactor [[ah, ai, aj, ak], [bh, bi, bj, bk], [ch, ci, cj, ck], [dh, di, dj, dk]] (Suc 0) 0 =
     - (ai * (cj * dk - ck * dj) - aj * (ci * dk - ck * di) + ak * (ci * dj - cj * di))"
  by (simp add: cofactor_def det_def minor_mat_def upt_rec numeral_eq_Suc algebra_simps)

lemma cofactor4_11:
  "cofactor [[ah, ai, aj, ak], [bh, bi, bj, bk], [ch, ci, cj, ck], [dh, di, dj, dk]] (Suc 0) (Suc 0) =
     (ah * (cj * dk - ck * dj) - aj * (ch * dk - ck * dh) + ak * (ch * dj - cj * dh))"
  by (simp add: cofactor_def det_def minor_mat_def upt_rec numeral_eq_Suc algebra_simps)

lemma cofactor4_12:
  "cofactor [[ah, ai, aj, ak], [bh, bi, bj, bk], [ch, ci, cj, ck], [dh, di, dj, dk]] (Suc 0) (Suc (Suc 0)) =
     - (ah * (ci * dk - ck * di) - ai * (ch * dk - ck * dh) + ak * (ch * di - ci * dh))"
  by (simp add: cofactor_def det_def minor_mat_def upt_rec numeral_eq_Suc algebra_simps)

lemma cofactor4_13:
  "cofactor [[ah, ai, aj, ak], [bh, bi, bj, bk], [ch, ci, cj, ck], [dh, di, dj, dk]] (Suc 0) (Suc (Suc (Suc 0))) =
     (ah * (ci * dj - cj * di) - ai * (ch * dj - cj * dh) + aj * (ch * di - ci * dh))"
  by (simp add: cofactor_def det_def minor_mat_def upt_rec numeral_eq_Suc algebra_simps)

lemma cofactor4_20:
  "cofactor [[ah, ai, aj, ak], [bh, bi, bj, bk], [ch, ci, cj, ck], [dh, di, dj, dk]] (Suc (Suc 0)) 0 =
     (ai * (bj * dk - bk * dj) - aj * (bi * dk - bk * di) + ak * (bi * dj - bj * di))"
  by (simp add: cofactor_def det_def minor_mat_def upt_rec numeral_eq_Suc algebra_simps)

lemma cofactor4_21:
  "cofactor [[ah, ai, aj, ak], [bh, bi, bj, bk], [ch, ci, cj, ck], [dh, di, dj, dk]] (Suc (Suc 0)) (Suc 0) =
     - (ah * (bj * dk - bk * dj) - aj * (bh * dk - bk * dh) + ak * (bh * dj - bj * dh))"
  by (simp add: cofactor_def det_def minor_mat_def upt_rec numeral_eq_Suc algebra_simps)

lemma cofactor4_22:
  "cofactor [[ah, ai, aj, ak], [bh, bi, bj, bk], [ch, ci, cj, ck], [dh, di, dj, dk]] (Suc (Suc 0)) (Suc (Suc 0)) =
     (ah * (bi * dk - bk * di) - ai * (bh * dk - bk * dh) + ak * (bh * di - bi * dh))"
  by (simp add: cofactor_def det_def minor_mat_def upt_rec numeral_eq_Suc algebra_simps)

lemma cofactor4_23:
  "cofactor [[ah, ai, aj, ak], [bh, bi, bj, bk], [ch, ci, cj, ck], [dh, di, dj, dk]] (Suc (Suc 0)) (Suc (Suc (Suc 0))) =
     - (ah * (bi * dj - bj * di) - ai * (bh * dj - bj * dh) + aj * (bh * di - bi * dh))"
  by (simp add: cofactor_def det_def minor_mat_def upt_rec numeral_eq_Suc algebra_simps)

lemma cofactor4_30:
  "cofactor [[ah, ai, aj, ak], [bh, bi, bj, bk], [ch, ci, cj, ck], [dh, di, dj, dk]] (Suc (Suc (Suc 0))) 0 =
     - (ai * (bj * ck - bk * cj) - aj * (bi * ck - bk * ci) + ak * (bi * cj - bj * ci))"
  by (simp add: cofactor_def det_def minor_mat_def upt_rec numeral_eq_Suc algebra_simps)

lemma cofactor4_31:
  "cofactor [[ah, ai, aj, ak], [bh, bi, bj, bk], [ch, ci, cj, ck], [dh, di, dj, dk]] (Suc (Suc (Suc 0))) (Suc 0) =
     (ah * (bj * ck - bk * cj) - aj * (bh * ck - bk * ch) + ak * (bh * cj - bj * ch))"
  by (simp add: cofactor_def det_def minor_mat_def upt_rec numeral_eq_Suc algebra_simps)

lemma cofactor4_32:
  "cofactor [[ah, ai, aj, ak], [bh, bi, bj, bk], [ch, ci, cj, ck], [dh, di, dj, dk]] (Suc (Suc (Suc 0))) (Suc (Suc 0)) =
     - (ah * (bi * ck - bk * ci) - ai * (bh * ck - bk * ch) + ak * (bh * ci - bi * ch))"
  by (simp add: cofactor_def det_def minor_mat_def upt_rec numeral_eq_Suc algebra_simps)

lemma cofactor4_33:
  "cofactor [[ah, ai, aj, ak], [bh, bi, bj, bk], [ch, ci, cj, ck], [dh, di, dj, dk]] (Suc (Suc (Suc 0))) (Suc (Suc (Suc 0))) =
     (ah * (bi * cj - bj * ci) - ai * (bh * cj - bj * ch) + aj * (bh * ci - bi * ch))"
  by (simp add: cofactor_def det_def minor_mat_def upt_rec numeral_eq_Suc algebra_simps)

lemmas cofactor4 =
  cofactor4_00 cofactor4_01 cofactor4_02 cofactor4_03
  cofactor4_10 cofactor4_11 cofactor4_12 cofactor4_13
  cofactor4_20 cofactor4_21 cofactor4_22 cofactor4_23
  cofactor4_30 cofactor4_31 cofactor4_32 cofactor4_33

lemma laplace_row_00:
  fixes ah ai aj ak bh bi bj bk ch ci cj ck dh di dj dk :: real
  shows "ah * cofactor [[ah, ai, aj, ak], [bh, bi, bj, bk], [ch, ci, cj, ck], [dh, di, dj, dk]] 0 0 + ai * cofactor [[ah, ai, aj, ak], [bh, bi, bj, bk], [ch, ci, cj, ck], [dh, di, dj, dk]] 0 (Suc 0) + aj * cofactor [[ah, ai, aj, ak], [bh, bi, bj, bk], [ch, ci, cj, ck], [dh, di, dj, dk]] 0 (Suc (Suc 0)) + ak * cofactor [[ah, ai, aj, ak], [bh, bi, bj, bk], [ch, ci, cj, ck], [dh, di, dj, dk]] 0 (Suc (Suc (Suc 0))) = det [[ah, ai, aj, ak], [bh, bi, bj, bk], [ch, ci, cj, ck], [dh, di, dj, dk]]"
  unfolding cofactor4 det4_expand by (simp add: algebra_simps)

lemma laplace_col_00:
  fixes ah ai aj ak bh bi bj bk ch ci cj ck dh di dj dk :: real
  shows "cofactor [[ah, ai, aj, ak], [bh, bi, bj, bk], [ch, ci, cj, ck], [dh, di, dj, dk]] 0 0 * ah + cofactor [[ah, ai, aj, ak], [bh, bi, bj, bk], [ch, ci, cj, ck], [dh, di, dj, dk]] (Suc 0) 0 * bh + cofactor [[ah, ai, aj, ak], [bh, bi, bj, bk], [ch, ci, cj, ck], [dh, di, dj, dk]] (Suc (Suc 0)) 0 * ch + cofactor [[ah, ai, aj, ak], [bh, bi, bj, bk], [ch, ci, cj, ck], [dh, di, dj, dk]] (Suc (Suc (Suc 0))) 0 * dh = det [[ah, ai, aj, ak], [bh, bi, bj, bk], [ch, ci, cj, ck], [dh, di, dj, dk]]"
  unfolding cofactor4 det4_expand by (simp add: algebra_simps)

lemma laplace_row_01:
  fixes ah ai aj ak bh bi bj bk ch ci cj ck dh di dj dk :: real
  shows "ah * cofactor [[ah, ai, aj, ak], [bh, bi, bj, bk], [ch, ci, cj, ck], [dh, di, dj, dk]] (Suc 0) 0 + ai * cofactor [[ah, ai, aj, ak], [bh, bi, bj, bk], [ch, ci, cj, ck], [dh, di, dj, dk]] (Suc 0) (Suc 0) + aj * cofactor [[ah, ai, aj, ak], [bh, bi, bj, bk], [ch, ci, cj, ck], [dh, di, dj, dk]] (Suc 0) (Suc (Suc 0)) + ak * cofactor [[ah, ai, aj, ak], [bh, bi, bj, bk], [ch, ci, cj, ck], [dh, di, dj, dk]] (Suc 0) (Suc (Suc (Suc 0))) = 0"
  unfolding cofactor4 det4_expand by (simp add: algebra_simps)

lemma laplace_col_01:
  fixes ah ai aj ak bh bi bj bk ch ci cj ck dh di dj dk :: real
  shows "cofactor [[ah, ai, aj, ak], [bh, bi, bj, bk], [ch, ci, cj, ck], [dh, di, dj, dk]] 0 0 * ai + cofactor [[ah, ai, aj, ak], [bh, bi, bj, bk], [ch, ci, cj, ck], [dh, di, dj, dk]] (Suc 0) 0 * bi + cofactor [[ah, ai, aj, ak], [bh, bi, bj, bk], [ch, ci, cj, ck], [dh, di, dj, dk]] (Suc (Suc 0)) 0 * ci + cofactor [[ah, ai, aj, ak], [bh, bi, bj, bk], [ch, ci, cj, ck], [dh, di, dj, dk]] (Suc (Suc (Suc 0))) 0 * di = 0"
  unfolding cofactor4 det4_expand by (simp add: algebra_simps)

lemma laplace_row_02:
  fixes ah ai aj ak bh bi bj bk ch ci cj ck dh di dj dk :: real
  shows "ah * cofactor [[ah, ai, aj, ak], [bh, bi, bj, bk], [ch, ci, cj, ck], [dh, di, dj, dk]] (Suc (Suc 0)) 0 + ai * cofactor [[ah, ai, aj, ak], [bh, bi, bj, bk], [ch, ci, cj, ck], [dh, di, dj, dk]] (Suc (Suc 0)) (Suc 0) + aj * cofactor [[ah, ai, aj, ak], [bh, bi, bj, bk], [ch, ci, cj, ck], [dh, di, dj, dk]] (Suc (Suc 0)) (Suc (Suc 0)) + ak * cofactor [[ah, ai, aj, ak], [bh, bi, bj, bk], [ch, ci, cj, ck], [dh, di, dj, dk]] (Suc (Suc 0)) (Suc (Suc (Suc 0))) = 0"
  unfolding cofactor4 det4_expand by (simp add: algebra_simps)

lemma laplace_col_02:
  fixes ah ai aj ak bh bi bj bk ch ci cj ck dh di dj dk :: real
  shows "cofactor [[ah, ai, aj, ak], [bh, bi, bj, bk], [ch, ci, cj, ck], [dh, di, dj, dk]] 0 0 * aj + cofactor [[ah, ai, aj, ak], [bh, bi, bj, bk], [ch, ci, cj, ck], [dh, di, dj, dk]] (Suc 0) 0 * bj + cofactor [[ah, ai, aj, ak], [bh, bi, bj, bk], [ch, ci, cj, ck], [dh, di, dj, dk]] (Suc (Suc 0)) 0 * cj + cofactor [[ah, ai, aj, ak], [bh, bi, bj, bk], [ch, ci, cj, ck], [dh, di, dj, dk]] (Suc (Suc (Suc 0))) 0 * dj = 0"
  unfolding cofactor4 det4_expand by (simp add: algebra_simps)

lemma laplace_row_03:
  fixes ah ai aj ak bh bi bj bk ch ci cj ck dh di dj dk :: real
  shows "ah * cofactor [[ah, ai, aj, ak], [bh, bi, bj, bk], [ch, ci, cj, ck], [dh, di, dj, dk]] (Suc (Suc (Suc 0))) 0 + ai * cofactor [[ah, ai, aj, ak], [bh, bi, bj, bk], [ch, ci, cj, ck], [dh, di, dj, dk]] (Suc (Suc (Suc 0))) (Suc 0) + aj * cofactor [[ah, ai, aj, ak], [bh, bi, bj, bk], [ch, ci, cj, ck], [dh, di, dj, dk]] (Suc (Suc (Suc 0))) (Suc (Suc 0)) + ak * cofactor [[ah, ai, aj, ak], [bh, bi, bj, bk], [ch, ci, cj, ck], [dh, di, dj, dk]] (Suc (Suc (Suc 0))) (Suc (Suc (Suc 0))) = 0"
  unfolding cofactor4 det4_expand by (simp add: algebra_simps)

lemma laplace_col_03:
  fixes ah ai aj ak bh bi bj bk ch ci cj ck dh di dj dk :: real
  shows "cofactor [[ah, ai, aj, ak], [bh, bi, bj, bk], [ch, ci, cj, ck], [dh, di, dj, dk]] 0 0 * ak + cofactor [[ah, ai, aj, ak], [bh, bi, bj, bk], [ch, ci, cj, ck], [dh, di, dj, dk]] (Suc 0) 0 * bk + cofactor [[ah, ai, aj, ak], [bh, bi, bj, bk], [ch, ci, cj, ck], [dh, di, dj, dk]] (Suc (Suc 0)) 0 * ck + cofactor [[ah, ai, aj, ak], [bh, bi, bj, bk], [ch, ci, cj, ck], [dh, di, dj, dk]] (Suc (Suc (Suc 0))) 0 * dk = 0"
  unfolding cofactor4 det4_expand by (simp add: algebra_simps)

lemma laplace_row_10:
  fixes ah ai aj ak bh bi bj bk ch ci cj ck dh di dj dk :: real
  shows "bh * cofactor [[ah, ai, aj, ak], [bh, bi, bj, bk], [ch, ci, cj, ck], [dh, di, dj, dk]] 0 0 + bi * cofactor [[ah, ai, aj, ak], [bh, bi, bj, bk], [ch, ci, cj, ck], [dh, di, dj, dk]] 0 (Suc 0) + bj * cofactor [[ah, ai, aj, ak], [bh, bi, bj, bk], [ch, ci, cj, ck], [dh, di, dj, dk]] 0 (Suc (Suc 0)) + bk * cofactor [[ah, ai, aj, ak], [bh, bi, bj, bk], [ch, ci, cj, ck], [dh, di, dj, dk]] 0 (Suc (Suc (Suc 0))) = 0"
  unfolding cofactor4 det4_expand by (simp add: algebra_simps)

lemma laplace_col_10:
  fixes ah ai aj ak bh bi bj bk ch ci cj ck dh di dj dk :: real
  shows "cofactor [[ah, ai, aj, ak], [bh, bi, bj, bk], [ch, ci, cj, ck], [dh, di, dj, dk]] 0 (Suc 0) * ah + cofactor [[ah, ai, aj, ak], [bh, bi, bj, bk], [ch, ci, cj, ck], [dh, di, dj, dk]] (Suc 0) (Suc 0) * bh + cofactor [[ah, ai, aj, ak], [bh, bi, bj, bk], [ch, ci, cj, ck], [dh, di, dj, dk]] (Suc (Suc 0)) (Suc 0) * ch + cofactor [[ah, ai, aj, ak], [bh, bi, bj, bk], [ch, ci, cj, ck], [dh, di, dj, dk]] (Suc (Suc (Suc 0))) (Suc 0) * dh = 0"
  unfolding cofactor4 det4_expand by (simp add: algebra_simps)

lemma laplace_row_11:
  fixes ah ai aj ak bh bi bj bk ch ci cj ck dh di dj dk :: real
  shows "bh * cofactor [[ah, ai, aj, ak], [bh, bi, bj, bk], [ch, ci, cj, ck], [dh, di, dj, dk]] (Suc 0) 0 + bi * cofactor [[ah, ai, aj, ak], [bh, bi, bj, bk], [ch, ci, cj, ck], [dh, di, dj, dk]] (Suc 0) (Suc 0) + bj * cofactor [[ah, ai, aj, ak], [bh, bi, bj, bk], [ch, ci, cj, ck], [dh, di, dj, dk]] (Suc 0) (Suc (Suc 0)) + bk * cofactor [[ah, ai, aj, ak], [bh, bi, bj, bk], [ch, ci, cj, ck], [dh, di, dj, dk]] (Suc 0) (Suc (Suc (Suc 0))) = det [[ah, ai, aj, ak], [bh, bi, bj, bk], [ch, ci, cj, ck], [dh, di, dj, dk]]"
  unfolding cofactor4 det4_expand by (simp add: algebra_simps)

lemma laplace_col_11:
  fixes ah ai aj ak bh bi bj bk ch ci cj ck dh di dj dk :: real
  shows "cofactor [[ah, ai, aj, ak], [bh, bi, bj, bk], [ch, ci, cj, ck], [dh, di, dj, dk]] 0 (Suc 0) * ai + cofactor [[ah, ai, aj, ak], [bh, bi, bj, bk], [ch, ci, cj, ck], [dh, di, dj, dk]] (Suc 0) (Suc 0) * bi + cofactor [[ah, ai, aj, ak], [bh, bi, bj, bk], [ch, ci, cj, ck], [dh, di, dj, dk]] (Suc (Suc 0)) (Suc 0) * ci + cofactor [[ah, ai, aj, ak], [bh, bi, bj, bk], [ch, ci, cj, ck], [dh, di, dj, dk]] (Suc (Suc (Suc 0))) (Suc 0) * di = det [[ah, ai, aj, ak], [bh, bi, bj, bk], [ch, ci, cj, ck], [dh, di, dj, dk]]"
  unfolding cofactor4 det4_expand by (simp add: algebra_simps)

lemma laplace_row_12:
  fixes ah ai aj ak bh bi bj bk ch ci cj ck dh di dj dk :: real
  shows "bh * cofactor [[ah, ai, aj, ak], [bh, bi, bj, bk], [ch, ci, cj, ck], [dh, di, dj, dk]] (Suc (Suc 0)) 0 + bi * cofactor [[ah, ai, aj, ak], [bh, bi, bj, bk], [ch, ci, cj, ck], [dh, di, dj, dk]] (Suc (Suc 0)) (Suc 0) + bj * cofactor [[ah, ai, aj, ak], [bh, bi, bj, bk], [ch, ci, cj, ck], [dh, di, dj, dk]] (Suc (Suc 0)) (Suc (Suc 0)) + bk * cofactor [[ah, ai, aj, ak], [bh, bi, bj, bk], [ch, ci, cj, ck], [dh, di, dj, dk]] (Suc (Suc 0)) (Suc (Suc (Suc 0))) = 0"
  unfolding cofactor4 det4_expand by (simp add: algebra_simps)

lemma laplace_col_12:
  fixes ah ai aj ak bh bi bj bk ch ci cj ck dh di dj dk :: real
  shows "cofactor [[ah, ai, aj, ak], [bh, bi, bj, bk], [ch, ci, cj, ck], [dh, di, dj, dk]] 0 (Suc 0) * aj + cofactor [[ah, ai, aj, ak], [bh, bi, bj, bk], [ch, ci, cj, ck], [dh, di, dj, dk]] (Suc 0) (Suc 0) * bj + cofactor [[ah, ai, aj, ak], [bh, bi, bj, bk], [ch, ci, cj, ck], [dh, di, dj, dk]] (Suc (Suc 0)) (Suc 0) * cj + cofactor [[ah, ai, aj, ak], [bh, bi, bj, bk], [ch, ci, cj, ck], [dh, di, dj, dk]] (Suc (Suc (Suc 0))) (Suc 0) * dj = 0"
  unfolding cofactor4 det4_expand by (simp add: algebra_simps)

lemma laplace_row_13:
  fixes ah ai aj ak bh bi bj bk ch ci cj ck dh di dj dk :: real
  shows "bh * cofactor [[ah, ai, aj, ak], [bh, bi, bj, bk], [ch, ci, cj, ck], [dh, di, dj, dk]] (Suc (Suc (Suc 0))) 0 + bi * cofactor [[ah, ai, aj, ak], [bh, bi, bj, bk], [ch, ci, cj, ck], [dh, di, dj, dk]] (Suc (Suc (Suc 0))) (Suc 0) + bj * cofactor [[ah, ai, aj, ak], [bh, bi, bj, bk], [ch, ci, cj, ck], [dh, di, dj, dk]] (Suc (Suc (Suc 0))) (Suc (Suc 0)) + bk * cofactor [[ah, ai, aj, ak], [bh, bi, bj, bk], [ch, ci, cj, ck], [dh, di, dj, dk]] (Suc (Suc (Suc 0))) (Suc (Suc (Suc 0))) = 0"
  unfolding cofactor4 det4_expand by (simp add: algebra_simps)

lemma laplace_col_13:
  fixes ah ai aj ak bh bi bj bk ch ci cj ck dh di dj dk :: real
  shows "cofactor [[ah, ai, aj, ak], [bh, bi, bj, bk], [ch, ci, cj, ck], [dh, di, dj, dk]] 0 (Suc 0) * ak + cofactor [[ah, ai, aj, ak], [bh, bi, bj, bk], [ch, ci, cj, ck], [dh, di, dj, dk]] (Suc 0) (Suc 0) * bk + cofactor [[ah, ai, aj, ak], [bh, bi, bj, bk], [ch, ci, cj, ck], [dh, di, dj, dk]] (Suc (Suc 0)) (Suc 0) * ck + cofactor [[ah, ai, aj, ak], [bh, bi, bj, bk], [ch, ci, cj, ck], [dh, di, dj, dk]] (Suc (Suc (Suc 0))) (Suc 0) * dk = 0"
  unfolding cofactor4 det4_expand by (simp add: algebra_simps)

lemma laplace_row_20:
  fixes ah ai aj ak bh bi bj bk ch ci cj ck dh di dj dk :: real
  shows "ch * cofactor [[ah, ai, aj, ak], [bh, bi, bj, bk], [ch, ci, cj, ck], [dh, di, dj, dk]] 0 0 + ci * cofactor [[ah, ai, aj, ak], [bh, bi, bj, bk], [ch, ci, cj, ck], [dh, di, dj, dk]] 0 (Suc 0) + cj * cofactor [[ah, ai, aj, ak], [bh, bi, bj, bk], [ch, ci, cj, ck], [dh, di, dj, dk]] 0 (Suc (Suc 0)) + ck * cofactor [[ah, ai, aj, ak], [bh, bi, bj, bk], [ch, ci, cj, ck], [dh, di, dj, dk]] 0 (Suc (Suc (Suc 0))) = 0"
  unfolding cofactor4 det4_expand by (simp add: algebra_simps)

lemma laplace_col_20:
  fixes ah ai aj ak bh bi bj bk ch ci cj ck dh di dj dk :: real
  shows "cofactor [[ah, ai, aj, ak], [bh, bi, bj, bk], [ch, ci, cj, ck], [dh, di, dj, dk]] 0 (Suc (Suc 0)) * ah + cofactor [[ah, ai, aj, ak], [bh, bi, bj, bk], [ch, ci, cj, ck], [dh, di, dj, dk]] (Suc 0) (Suc (Suc 0)) * bh + cofactor [[ah, ai, aj, ak], [bh, bi, bj, bk], [ch, ci, cj, ck], [dh, di, dj, dk]] (Suc (Suc 0)) (Suc (Suc 0)) * ch + cofactor [[ah, ai, aj, ak], [bh, bi, bj, bk], [ch, ci, cj, ck], [dh, di, dj, dk]] (Suc (Suc (Suc 0))) (Suc (Suc 0)) * dh = 0"
  unfolding cofactor4 det4_expand by (simp add: algebra_simps)

lemma laplace_row_21:
  fixes ah ai aj ak bh bi bj bk ch ci cj ck dh di dj dk :: real
  shows "ch * cofactor [[ah, ai, aj, ak], [bh, bi, bj, bk], [ch, ci, cj, ck], [dh, di, dj, dk]] (Suc 0) 0 + ci * cofactor [[ah, ai, aj, ak], [bh, bi, bj, bk], [ch, ci, cj, ck], [dh, di, dj, dk]] (Suc 0) (Suc 0) + cj * cofactor [[ah, ai, aj, ak], [bh, bi, bj, bk], [ch, ci, cj, ck], [dh, di, dj, dk]] (Suc 0) (Suc (Suc 0)) + ck * cofactor [[ah, ai, aj, ak], [bh, bi, bj, bk], [ch, ci, cj, ck], [dh, di, dj, dk]] (Suc 0) (Suc (Suc (Suc 0))) = 0"
  unfolding cofactor4 det4_expand by (simp add: algebra_simps)

lemma laplace_col_21:
  fixes ah ai aj ak bh bi bj bk ch ci cj ck dh di dj dk :: real
  shows "cofactor [[ah, ai, aj, ak], [bh, bi, bj, bk], [ch, ci, cj, ck], [dh, di, dj, dk]] 0 (Suc (Suc 0)) * ai + cofactor [[ah, ai, aj, ak], [bh, bi, bj, bk], [ch, ci, cj, ck], [dh, di, dj, dk]] (Suc 0) (Suc (Suc 0)) * bi + cofactor [[ah, ai, aj, ak], [bh, bi, bj, bk], [ch, ci, cj, ck], [dh, di, dj, dk]] (Suc (Suc 0)) (Suc (Suc 0)) * ci + cofactor [[ah, ai, aj, ak], [bh, bi, bj, bk], [ch, ci, cj, ck], [dh, di, dj, dk]] (Suc (Suc (Suc 0))) (Suc (Suc 0)) * di = 0"
  unfolding cofactor4 det4_expand by (simp add: algebra_simps)

lemma laplace_row_22:
  fixes ah ai aj ak bh bi bj bk ch ci cj ck dh di dj dk :: real
  shows "ch * cofactor [[ah, ai, aj, ak], [bh, bi, bj, bk], [ch, ci, cj, ck], [dh, di, dj, dk]] (Suc (Suc 0)) 0 + ci * cofactor [[ah, ai, aj, ak], [bh, bi, bj, bk], [ch, ci, cj, ck], [dh, di, dj, dk]] (Suc (Suc 0)) (Suc 0) + cj * cofactor [[ah, ai, aj, ak], [bh, bi, bj, bk], [ch, ci, cj, ck], [dh, di, dj, dk]] (Suc (Suc 0)) (Suc (Suc 0)) + ck * cofactor [[ah, ai, aj, ak], [bh, bi, bj, bk], [ch, ci, cj, ck], [dh, di, dj, dk]] (Suc (Suc 0)) (Suc (Suc (Suc 0))) = det [[ah, ai, aj, ak], [bh, bi, bj, bk], [ch, ci, cj, ck], [dh, di, dj, dk]]"
  unfolding cofactor4 det4_expand by (simp add: algebra_simps)

lemma laplace_col_22:
  fixes ah ai aj ak bh bi bj bk ch ci cj ck dh di dj dk :: real
  shows "cofactor [[ah, ai, aj, ak], [bh, bi, bj, bk], [ch, ci, cj, ck], [dh, di, dj, dk]] 0 (Suc (Suc 0)) * aj + cofactor [[ah, ai, aj, ak], [bh, bi, bj, bk], [ch, ci, cj, ck], [dh, di, dj, dk]] (Suc 0) (Suc (Suc 0)) * bj + cofactor [[ah, ai, aj, ak], [bh, bi, bj, bk], [ch, ci, cj, ck], [dh, di, dj, dk]] (Suc (Suc 0)) (Suc (Suc 0)) * cj + cofactor [[ah, ai, aj, ak], [bh, bi, bj, bk], [ch, ci, cj, ck], [dh, di, dj, dk]] (Suc (Suc (Suc 0))) (Suc (Suc 0)) * dj = det [[ah, ai, aj, ak], [bh, bi, bj, bk], [ch, ci, cj, ck], [dh, di, dj, dk]]"
  unfolding cofactor4 det4_expand by (simp add: algebra_simps)

lemma laplace_row_23:
  fixes ah ai aj ak bh bi bj bk ch ci cj ck dh di dj dk :: real
  shows "ch * cofactor [[ah, ai, aj, ak], [bh, bi, bj, bk], [ch, ci, cj, ck], [dh, di, dj, dk]] (Suc (Suc (Suc 0))) 0 + ci * cofactor [[ah, ai, aj, ak], [bh, bi, bj, bk], [ch, ci, cj, ck], [dh, di, dj, dk]] (Suc (Suc (Suc 0))) (Suc 0) + cj * cofactor [[ah, ai, aj, ak], [bh, bi, bj, bk], [ch, ci, cj, ck], [dh, di, dj, dk]] (Suc (Suc (Suc 0))) (Suc (Suc 0)) + ck * cofactor [[ah, ai, aj, ak], [bh, bi, bj, bk], [ch, ci, cj, ck], [dh, di, dj, dk]] (Suc (Suc (Suc 0))) (Suc (Suc (Suc 0))) = 0"
  unfolding cofactor4 det4_expand by (simp add: algebra_simps)

lemma laplace_col_23:
  fixes ah ai aj ak bh bi bj bk ch ci cj ck dh di dj dk :: real
  shows "cofactor [[ah, ai, aj, ak], [bh, bi, bj, bk], [ch, ci, cj, ck], [dh, di, dj, dk]] 0 (Suc (Suc 0)) * ak + cofactor [[ah, ai, aj, ak], [bh, bi, bj, bk], [ch, ci, cj, ck], [dh, di, dj, dk]] (Suc 0) (Suc (Suc 0)) * bk + cofactor [[ah, ai, aj, ak], [bh, bi, bj, bk], [ch, ci, cj, ck], [dh, di, dj, dk]] (Suc (Suc 0)) (Suc (Suc 0)) * ck + cofactor [[ah, ai, aj, ak], [bh, bi, bj, bk], [ch, ci, cj, ck], [dh, di, dj, dk]] (Suc (Suc (Suc 0))) (Suc (Suc 0)) * dk = 0"
  unfolding cofactor4 det4_expand by (simp add: algebra_simps)

lemma laplace_row_30:
  fixes ah ai aj ak bh bi bj bk ch ci cj ck dh di dj dk :: real
  shows "dh * cofactor [[ah, ai, aj, ak], [bh, bi, bj, bk], [ch, ci, cj, ck], [dh, di, dj, dk]] 0 0 + di * cofactor [[ah, ai, aj, ak], [bh, bi, bj, bk], [ch, ci, cj, ck], [dh, di, dj, dk]] 0 (Suc 0) + dj * cofactor [[ah, ai, aj, ak], [bh, bi, bj, bk], [ch, ci, cj, ck], [dh, di, dj, dk]] 0 (Suc (Suc 0)) + dk * cofactor [[ah, ai, aj, ak], [bh, bi, bj, bk], [ch, ci, cj, ck], [dh, di, dj, dk]] 0 (Suc (Suc (Suc 0))) = 0"
  unfolding cofactor4 det4_expand by (simp add: algebra_simps)

lemma laplace_col_30:
  fixes ah ai aj ak bh bi bj bk ch ci cj ck dh di dj dk :: real
  shows "cofactor [[ah, ai, aj, ak], [bh, bi, bj, bk], [ch, ci, cj, ck], [dh, di, dj, dk]] 0 (Suc (Suc (Suc 0))) * ah + cofactor [[ah, ai, aj, ak], [bh, bi, bj, bk], [ch, ci, cj, ck], [dh, di, dj, dk]] (Suc 0) (Suc (Suc (Suc 0))) * bh + cofactor [[ah, ai, aj, ak], [bh, bi, bj, bk], [ch, ci, cj, ck], [dh, di, dj, dk]] (Suc (Suc 0)) (Suc (Suc (Suc 0))) * ch + cofactor [[ah, ai, aj, ak], [bh, bi, bj, bk], [ch, ci, cj, ck], [dh, di, dj, dk]] (Suc (Suc (Suc 0))) (Suc (Suc (Suc 0))) * dh = 0"
  unfolding cofactor4 det4_expand by (simp add: algebra_simps)

lemma laplace_row_31:
  fixes ah ai aj ak bh bi bj bk ch ci cj ck dh di dj dk :: real
  shows "dh * cofactor [[ah, ai, aj, ak], [bh, bi, bj, bk], [ch, ci, cj, ck], [dh, di, dj, dk]] (Suc 0) 0 + di * cofactor [[ah, ai, aj, ak], [bh, bi, bj, bk], [ch, ci, cj, ck], [dh, di, dj, dk]] (Suc 0) (Suc 0) + dj * cofactor [[ah, ai, aj, ak], [bh, bi, bj, bk], [ch, ci, cj, ck], [dh, di, dj, dk]] (Suc 0) (Suc (Suc 0)) + dk * cofactor [[ah, ai, aj, ak], [bh, bi, bj, bk], [ch, ci, cj, ck], [dh, di, dj, dk]] (Suc 0) (Suc (Suc (Suc 0))) = 0"
  unfolding cofactor4 det4_expand by (simp add: algebra_simps)

lemma laplace_col_31:
  fixes ah ai aj ak bh bi bj bk ch ci cj ck dh di dj dk :: real
  shows "cofactor [[ah, ai, aj, ak], [bh, bi, bj, bk], [ch, ci, cj, ck], [dh, di, dj, dk]] 0 (Suc (Suc (Suc 0))) * ai + cofactor [[ah, ai, aj, ak], [bh, bi, bj, bk], [ch, ci, cj, ck], [dh, di, dj, dk]] (Suc 0) (Suc (Suc (Suc 0))) * bi + cofactor [[ah, ai, aj, ak], [bh, bi, bj, bk], [ch, ci, cj, ck], [dh, di, dj, dk]] (Suc (Suc 0)) (Suc (Suc (Suc 0))) * ci + cofactor [[ah, ai, aj, ak], [bh, bi, bj, bk], [ch, ci, cj, ck], [dh, di, dj, dk]] (Suc (Suc (Suc 0))) (Suc (Suc (Suc 0))) * di = 0"
  unfolding cofactor4 det4_expand by (simp add: algebra_simps)

lemma laplace_row_32:
  fixes ah ai aj ak bh bi bj bk ch ci cj ck dh di dj dk :: real
  shows "dh * cofactor [[ah, ai, aj, ak], [bh, bi, bj, bk], [ch, ci, cj, ck], [dh, di, dj, dk]] (Suc (Suc 0)) 0 + di * cofactor [[ah, ai, aj, ak], [bh, bi, bj, bk], [ch, ci, cj, ck], [dh, di, dj, dk]] (Suc (Suc 0)) (Suc 0) + dj * cofactor [[ah, ai, aj, ak], [bh, bi, bj, bk], [ch, ci, cj, ck], [dh, di, dj, dk]] (Suc (Suc 0)) (Suc (Suc 0)) + dk * cofactor [[ah, ai, aj, ak], [bh, bi, bj, bk], [ch, ci, cj, ck], [dh, di, dj, dk]] (Suc (Suc 0)) (Suc (Suc (Suc 0))) = 0"
  unfolding cofactor4 det4_expand by (simp add: algebra_simps)

lemma laplace_col_32:
  fixes ah ai aj ak bh bi bj bk ch ci cj ck dh di dj dk :: real
  shows "cofactor [[ah, ai, aj, ak], [bh, bi, bj, bk], [ch, ci, cj, ck], [dh, di, dj, dk]] 0 (Suc (Suc (Suc 0))) * aj + cofactor [[ah, ai, aj, ak], [bh, bi, bj, bk], [ch, ci, cj, ck], [dh, di, dj, dk]] (Suc 0) (Suc (Suc (Suc 0))) * bj + cofactor [[ah, ai, aj, ak], [bh, bi, bj, bk], [ch, ci, cj, ck], [dh, di, dj, dk]] (Suc (Suc 0)) (Suc (Suc (Suc 0))) * cj + cofactor [[ah, ai, aj, ak], [bh, bi, bj, bk], [ch, ci, cj, ck], [dh, di, dj, dk]] (Suc (Suc (Suc 0))) (Suc (Suc (Suc 0))) * dj = 0"
  unfolding cofactor4 det4_expand by (simp add: algebra_simps)

lemma laplace_row_33:
  fixes ah ai aj ak bh bi bj bk ch ci cj ck dh di dj dk :: real
  shows "dh * cofactor [[ah, ai, aj, ak], [bh, bi, bj, bk], [ch, ci, cj, ck], [dh, di, dj, dk]] (Suc (Suc (Suc 0))) 0 + di * cofactor [[ah, ai, aj, ak], [bh, bi, bj, bk], [ch, ci, cj, ck], [dh, di, dj, dk]] (Suc (Suc (Suc 0))) (Suc 0) + dj * cofactor [[ah, ai, aj, ak], [bh, bi, bj, bk], [ch, ci, cj, ck], [dh, di, dj, dk]] (Suc (Suc (Suc 0))) (Suc (Suc 0)) + dk * cofactor [[ah, ai, aj, ak], [bh, bi, bj, bk], [ch, ci, cj, ck], [dh, di, dj, dk]] (Suc (Suc (Suc 0))) (Suc (Suc (Suc 0))) = det [[ah, ai, aj, ak], [bh, bi, bj, bk], [ch, ci, cj, ck], [dh, di, dj, dk]]"
  unfolding cofactor4 det4_expand by (simp add: algebra_simps)

lemma laplace_col_33:
  fixes ah ai aj ak bh bi bj bk ch ci cj ck dh di dj dk :: real
  shows "cofactor [[ah, ai, aj, ak], [bh, bi, bj, bk], [ch, ci, cj, ck], [dh, di, dj, dk]] 0 (Suc (Suc (Suc 0))) * ak + cofactor [[ah, ai, aj, ak], [bh, bi, bj, bk], [ch, ci, cj, ck], [dh, di, dj, dk]] (Suc 0) (Suc (Suc (Suc 0))) * bk + cofactor [[ah, ai, aj, ak], [bh, bi, bj, bk], [ch, ci, cj, ck], [dh, di, dj, dk]] (Suc (Suc 0)) (Suc (Suc (Suc 0))) * ck + cofactor [[ah, ai, aj, ak], [bh, bi, bj, bk], [ch, ci, cj, ck], [dh, di, dj, dk]] (Suc (Suc (Suc 0))) (Suc (Suc (Suc 0))) * dk = det [[ah, ai, aj, ak], [bh, bi, bj, bk], [ch, ci, cj, ck], [dh, di, dj, dk]]"
  unfolding cofactor4 det4_expand by (simp add: algebra_simps)

lemmas laplace_rows =
  laplace_row_00 laplace_row_01 laplace_row_02 laplace_row_03
  laplace_row_10 laplace_row_11 laplace_row_12 laplace_row_13
  laplace_row_20 laplace_row_21 laplace_row_22 laplace_row_23
  laplace_row_30 laplace_row_31 laplace_row_32 laplace_row_33

lemmas laplace_cols =
  laplace_col_00 laplace_col_01 laplace_col_02 laplace_col_03
  laplace_col_10 laplace_col_11 laplace_col_12 laplace_col_13
  laplace_col_20 laplace_col_21 laplace_col_22 laplace_col_23
  laplace_col_30 laplace_col_31 laplace_col_32 laplace_col_33

lemma linalg_inv_4x4:
  "linalg_inv exact_solve [[ah, ai, aj, ak], [bh, bi, bj, bk], [ch, ci, cj, ck], [dh, di, dj, dk]] =
     (if det [[ah, ai, aj, ak], [bh, bi, bj, bk], [ch, ci, cj, ck], [dh, di, dj, dk]] = 0 then Inl LinAlgError
      else Inr
     [[cofactor [[ah, ai, aj, ak], [bh, bi, bj, bk], [ch, ci, cj, ck], [dh, di, dj, dk]] 0 0 / det [[ah, ai, aj, ak], [bh, bi, bj, bk], [ch, ci, cj, ck], [dh, di, dj, dk]], cofactor [[ah, ai, aj, ak], [bh, bi, bj, bk], [ch, ci, cj, ck], [dh, di, dj, dk]] (Suc 0) 0 / det [[ah, ai, aj, ak], [bh, bi, bj, bk], [ch, ci, cj, ck], [dh, di, dj, dk]], cofactor [[ah, ai, aj, ak], [bh, bi, bj, bk], [ch, ci, cj, ck], [dh, di, dj, dk]] (Suc (Suc 0)) 0 / det [[ah, ai, aj, ak], [bh, bi, bj, bk], [ch, ci, cj, ck], [dh, di, dj, dk]], cofactor [[ah, ai, aj, ak], [bh, bi, bj, bk], [ch, ci, cj, ck], [dh, di, dj, dk]] (Suc (Suc (Suc 0))) 0 / det [[ah, ai, aj, ak], [bh, bi, bj, bk], [ch, ci, cj, ck], [dh, di, dj, dk]]],
      [cofactor [[ah, ai, aj, ak], [bh, bi, bj, bk], [ch, ci, cj, ck], [dh, di, dj, dk]] 0 (Suc 0) / det [[ah, ai, aj, ak], [bh, bi, bj, bk], [ch, ci, cj, ck], [dh, di, dj, dk]], cofactor [[ah, ai, aj, ak], [bh, bi, bj, bk], [ch, ci, cj, ck], [dh, di, dj, dk]] (Suc 0) (Suc 0) / det [[ah, ai, aj, ak], [bh, bi, bj, bk], [ch, ci, cj, ck], [dh, di, dj, dk]], cofactor [[ah, ai, aj, ak], [bh, bi, bj, bk], [ch, ci, cj, ck], [dh, di, dj, dk]] (Suc (Suc 0)) (Suc 0) / det [[ah, ai, aj, ak], [bh, bi, bj, bk], [ch, ci, cj, ck], [dh, di, dj, dk]], cofactor [[ah, ai, aj, ak], [bh, bi, bj, bk], [ch, ci, cj, ck], [dh, di, dj, dk]] (Suc (Suc (Suc 0))) (Suc 0) / det [[ah, ai, aj, ak], [bh, bi, bj, bk], [ch, ci, cj, ck], [dh, di, dj, dk]]],
      [cofactor [[ah, ai, aj, ak], [bh, bi, bj, bk], [ch, ci, cj, ck], [dh, di, dj, dk]] 0 (Suc (Suc 0)) / det [[ah, ai, aj, ak], [bh, bi, bj, bk], [ch, ci, cj, ck], [dh, di, dj, dk]], cofactor [[ah, ai, aj, ak], [bh, bi, bj, bk], [ch, ci, cj, ck], [dh, di, dj, dk]] (Suc 0) (Suc (Suc 0)) / det [[ah, ai, aj, ak], [bh, bi, bj, bk], [ch, ci, cj, ck], [dh, di, dj, dk]], cofactor [[ah, ai, aj, ak], [bh, bi, bj, bk], [ch, ci, cj, ck], [dh, di, dj, dk]] (Suc (Suc 0)) (Suc (Suc 0)) / det [[ah, ai, aj, ak], [bh, bi, bj, bk], [ch, ci, cj, ck], [dh, di, dj, dk]], cofactor [[ah, ai, aj, ak], [bh, bi, bj, bk], [ch, ci, cj, ck], [dh, di, dj, dk]] (Suc (Suc (Suc 0))) (Suc (Suc 0)) / det [[ah, ai, aj, ak], [bh, bi, bj, bk], [ch, ci, cj, ck], [dh, di, dj, dk]]],
      [cofactor [[ah, ai, aj, ak], [bh, bi, bj, bk], [ch, ci, cj, ck], [dh, di, dj, dk]] 0 (Suc (Suc (Suc 0))) / det [[ah, ai, aj, ak], [bh, bi, bj, bk], [ch, ci, cj, ck], [dh, di, dj, dk]], cofactor [[ah, ai, aj, ak], [bh, bi, bj, bk], [ch, ci, cj, ck], [dh, di, dj, dk]] (Suc 0) (Suc (Suc (Suc 0))) / det [[ah, ai, aj, ak], [bh, bi, bj, bk], [ch, ci, cj, ck], [dh, di, dj, dk]], cofactor [[ah, ai, aj, ak], [bh, bi, bj, bk], [ch, ci, cj, ck], [dh, di, dj, dk]] (Suc (Suc 0)) (Suc (Suc (Suc 0))) / det [[ah, ai, aj, ak], [bh, bi, bj, bk], [ch, ci, cj, ck], [dh, di, dj, dk]], cofactor [[ah, ai, aj, ak], [bh, bi, bj, bk], [ch, ci, cj, ck], [dh, di, dj, dk]] (Suc (Suc (Suc 0))) (Suc (Suc (Suc 0))) / det [[ah, ai, aj, ak], [bh, bi, bj, bk], [ch, ci, cj, ck], [dh, di, dj, dk]]]])"
  by (simp add: linalg_inv_def exact_solve_def is_square_def)

lemma upt_4: "[0..<4] = [0, Suc 0, Suc (Suc 0), Suc (Suc (Suc 0))]"
  by (simp add: upt_rec numeral_eq_Suc)

lemma inv4_both:
  assumes "linalg_inv exact_solve [[ah, ai, aj, ak], [bh, bi, bj, bk], [ch, ci, cj, ck], [dh, di, dj, dk]] = Inr W"
  shows "matmul [[ah, ai, aj, ak], [bh, bi, bj, bk], [ch, ci, cj, ck], [dh, di, dj, dk]] W = eye 4"
    and "matmul W [[ah, ai, aj, ak], [bh, bi, bj, bk], [ch, ci, cj, ck], [dh, di, dj, dk]] = eye 4"
proof -
  let ?M = "[[ah, ai, aj, ak], [bh, bi, bj, bk], [ch, ci, cj, ck], [dh, di, dj, dk]]"
  define D where "D = det ?M"
  define C where "C = cofactor ?M"
  have D: "D \<noteq> 0"
    using assms unfolding D_def by (auto simp only: linalg_inv_4x4 split: if_splits)
  have W: "W = map (\<lambda>i. map (\<lambda>j. C j i / D) [0, Suc 0, Suc (Suc 0), Suc (Suc (Suc 0))]) [0, Suc 0, Suc (Suc 0), Suc (Suc (Suc 0))]"
    using assms D unfolding D_def C_def by (simp only: linalg_inv_4x4 if_False sum.inject list.map)
  note R = laplace_rows [where ah = ah and ai = ai and aj = aj and ak = ak and bh = bh and bi = bi and bj = bj and bk = bk and ch = ch and ci = ci and cj = cj and ck = ck and dh = dh and di = di and dj = dj and dk = dk, folded C_def D_def]
  note L = laplace_cols [where ah = ah and ai = ai and aj = aj and ak = ak and bh = bh and bi = bi and bj = bj and bk = bk and ch = ch and ci = ci and cj = cj and ck = ck and dh = dh and di = di and dj = dj and dk = dk, folded C_def D_def]
  show "matmul ?M W = eye 4"
    unfolding W using D R by (simp add: matmul_def eye_def upt_4 field_simps)
  show "matmul W ?M = eye 4"
    unfolding W using D L by (simp add: matmul_def eye_def upt_4 field_simps)
qed

subsection \<open>The allocator and the constructor\<close>

lemma build_f_to_TM_Inr:
  "build_f_to_TM quad = Inr F \<longleftrightarrow>
     k_eta quad \<noteq> 0 \<and> rotor_pos quad \<noteq> [] \<and> int (length (rotor_pos quad)) = num_rotors quad \<and>
     F = [map (\<lambda>i. 1) [0..<nat (num_rotors quad)],
          map (\<lambda>(key, r). vec_x (cross r (Vec3 0 0 1))) (rotor_pos quad),
          map (\<lambda>(key, r). vec_y (cross r (Vec3 0 0 1))) (rotor_pos quad),
          map (\<lambda>i. k_m quad / k_eta quad * (- 1) ^ i) [0..<nat (num_rotors quad)]]"
  by (auto simp add: build_f_to_TM_def Let_def)

lemma build_f_to_TM_shape:
  assumes "build_f_to_TM quad = Inr F"
  shows "length F = 4" and "list_all (\<lambda>row. length row = nat (num_rotors quad)) F"
  using assms unfolding build_f_to_TM_Inr by auto

lemma build_square_iff:
  assumes "build_f_to_TM quad = Inr F"
  shows "is_square F \<longleftrightarrow> num_rotors quad = 4"
  using assms unfolding build_f_to_TM_Inr is_square_def by auto

lemma linalg_inv_Inl: "linalg_inv solve M = Inl e \<Longrightarrow> e = LinAlgError"
  by (auto simp add: linalg_inv_def split: if_splits option.splits)

lemma linalg_inv_Inr:
  assumes "linalg_inv solve M = Inr T"
  shows "is_square M"
    and "\<exists>W. solve M = Some W \<and> T = map (\<lambda>i. map (\<lambda>j. W i j) [0..<length M]) [0..<length M]"
  using assms by (auto simp add: linalg_inv_def split: if_splits option.splits)

lemma init_Inr:
  assumes "SE3Control_init solve quad = Inr c"
  shows "\<exists>F T. build_f_to_TM quad = Inr F \<and> linalg_inv solve F = Inr T \<and> f_to_TM c = F \<and> TM_to_f c = T"
  using assms
  by (auto simp add: SE3Control_init_def quad_params.defs SE3Control.defs split: sum.splits)

lemma init_fails_unless_4:
  assumes "num_rotors quad \<noteq> 4"
  shows "\<exists>e. SE3Control_init solve quad = Inl e"
proof (cases "build_f_to_TM quad")
  case (Inl e)
  then show ?thesis by (simp add: SE3Control_init_def)
next
  case (Inr F)
  then have "\<not> is_square F" using assms build_square_iff by blast
  then have "linalg_inv solve F = Inl LinAlgError" by (simp add: linalg_inv_def)
  with Inr show ?thesis by (simp add: SE3Control_init_def)
qed

lemma len4D: "length xs = 4 \<Longrightarrow> \<exists>a b c d. xs = [a, b, c, d]"
  by (auto simp add: length_Suc_conv numeral_eq_Suc)

text \<open>
  \<open>exact_solve\<close> is what it is meant to be: whenever the constructor succeeds with it,
  the two matrices of the controller are inverse to each other.
\<close>

lemma exact_solve_inverse:
  assumes "SE3Control_init exact_solve quad = Inr c"
  shows "matmul (f_to_TM c) (TM_to_f c) = eye 4 \<and> matmul (TM_to_f c) (f_to_TM c) = eye 4"
proof -
  from init_Inr [OF assms] obtain F T where
    F: "build_f_to_TM quad = Inr F" and T: "linalg_inv exact_solve F = Inr T"
    and c: "f_to_TM c = F" "TM_to_f c = T" by blast
  from linalg_inv_Inr(1) [OF T] have sq: "is_square F" .
  from build_f_to_TM_shape [OF F] have "length F = 4" by simp
  then obtain r0 r1 r2 r3 where Fr: "F = [r0, r1, r2, r3]" using len4D by blast
  with sq have "length r0 = 4" "length r1 = 4" "length r2 = 4" "length r3 = 4"
    by (simp_all add: is_square_def)
  then obtain ah ai aj ak bh bi bj bk ch ci cj ck dh di dj dk where
    "r0 = [ah, ai, aj, ak]" "r1 = [bh, bi, bj, bk]" "r2 = [ch, ci, cj, ck]" "r3 = [dh, di, dj, dk]"
    using len4D by metis
  with Fr T have "linalg_inv exact_solve [[ah, ai, aj, ak], [bh, bi, bj, bk], [ch, ci, cj, ck], [dh, di, dj, dk]] = Inr T"
    and "F = [[ah, ai, aj, ak], [bh, bi, bj, bk], [ch, ci, cj, ck], [dh, di, dj, dk]]"
    by simp_all
  then show ?thesis unfolding c using inv4_both by metis
qed


text \<open>
  Claim C10.  The constructor succeeds only with exactly four rotors: with any other
  \<open>num_rotors\<close> it fails, and when the 4xN forward matrix could be built the failure is
  the \<open>LinAlgError\<close> of inverting an array that is not square.
\<close>

theorem only_four_rotors:
  assumes "num_rotors quad \<noteq> 4"
  shows "(\<exists>e. SE3Control_init solve quad = Inl e) \<and>
         (\<forall>F. build_f_to_TM quad = Inr F \<longrightarrow> SE3Control_init solve quad = Inl LinAlgError)"
proof
  show "\<exists>e. SE3Control_init solve quad = Inl e" using assms by (rule init_fails_unless_4)
  show "\<forall>F. build_f_to_TM quad = Inr F \<longrightarrow> SE3Control_init solve quad = Inl LinAlgError"
  proof (intro allI impI)
    fix F assume F: "build_f_to_TM quad = Inr F"
    then have "\<not> is_square F" using assms build_square_iff by blast
    then have "linalg_inv solve F = Inl LinAlgError" by (simp add: linalg_inv_def)
    with F show "SE3Control_init solve quad = Inl LinAlgError" by (simp add: SE3Control_init_def)
  qed
qed

lemma build_ignores_inertia:
  "build_f_to_TM (quad\<lparr>mass := m, Ixx := a, Iyy := b, Izz := c, Ixy := d, Ixz := e, Iyz := f\<rparr>)
     = build_f_to_TM quad"
  by (simp add: build_f_to_TM_def)

text \<open>
  Claim C7, as the code has it.  The constructor stores the mass and the six inertia
  components unchecked: replacing them by any values never changes whether construction
  succeeds.  A rotor count below four does make it fail.
\<close>

theorem construction_ignores_mass_and_inertia:
  "isl (SE3Control_init solve (quad\<lparr>mass := m, Ixx := a, Iyy := b, Izz := c, Ixy := d, Ixz := e, Iyz := f\<rparr>))
     = isl (SE3Control_init solve quad)
   \<and> (num_rotors quad < 4 \<longrightarrow> isl (SE3Control_init solve quad))"
proof
  show "isl (SE3Control_init solve (quad\<lparr>mass := m, Ixx := a, Iyy := b, Izz := c, Ixy := d, Ixz := e, Iyz := f\<rparr>))
     = isl (SE3Control_init solve quad)"
    by (simp add: SE3Control_init_def build_ignores_inertia split: sum.splits)
  show "num_rotors quad < 4 \<longrightarrow> isl (SE3Control_init solve quad)"
    using init_fails_unless_4 [of quad solve] by auto
qed

text \<open>
  Claim C4.  For a vehicle with \<open>N = num_rotors\<close> rotor positions (at least one) and a
  non-zero \<open>k_eta\<close>, line 63 builds a 4xN matrix: row 0 is all ones, rows 1 and 2 hold,
  for rotor \<open>i\<close>, the x and y components of the cross product of its position with
  \<open>[0, 0, 1]\<close>, and row 3 holds \<open>(k_m / k_eta) * (-1)\<^sup>i\<close>.  It is the \<open>f_to_TM\<close> of the
  controller when construction succeeds.
\<close>

theorem f_to_TM_structure:
  assumes "k_eta quad \<noteq> 0" and "rotor_pos quad \<noteq> []"
    and "int (length (rotor_pos quad)) = num_rotors quad"
  shows "\<exists>F. build_f_to_TM quad = Inr F \<and> length F = 4
           \<and> list_all (\<lambda>row. length row = nat (num_rotors quad)) F
           \<and> (\<forall>i < nat (num_rotors quad).
                 F ! 0 ! i = 1
               \<and> F ! 1 ! i = vec_x (cross (snd (rotor_pos quad ! i)) (Vec3 0 0 1))
               \<and> F ! 2 ! i = vec_y (cross (snd (rotor_pos quad ! i)) (Vec3 0 0 1))
               \<and> F ! 3 ! i = k_m quad / k_eta quad * (- 1) ^ i)
           \<and> (\<forall>solve c. SE3Control_init solve quad = Inr c \<longrightarrow> f_to_TM c = F)"
proof -
  let ?n = "nat (num_rotors quad)"
  let ?F = "[map (\<lambda>i. 1) [0..<?n],
          map (\<lambda>(key, r). vec_x (cross r (Vec3 0 0 1))) (rotor_pos quad),
          map (\<lambda>(key, r). vec_y (cross r (Vec3 0 0 1))) (rotor_pos quad),
          map (\<lambda>i. k_m quad / k_eta quad * (- 1) ^ i) [0..<?n]]"
  have n: "length (rotor_pos quad) = ?n" using assms(3) by simp
  have F: "build_f_to_TM quad = Inr ?F"
    unfolding build_f_to_TM_Inr using assms by simp
  have shape: "length ?F = 4" "list_all (\<lambda>row. length row = ?n) ?F"
    using n by simp_all
  have entries: "\<forall>i < ?n. ?F ! 0 ! i = 1
               \<and> ?F ! 1 ! i = vec_x (cross (snd (rotor_pos quad ! i)) (Vec3 0 0 1))
               \<and> ?F ! 2 ! i = vec_y (cross (snd (rotor_pos quad ! i)) (Vec3 0 0 1))
               \<and> ?F ! 3 ! i = k_m quad / k_eta quad * (- 1) ^ i"
    using n by (simp add: numeral_3_eq_3 case_prod_beta)
  have "\<forall>solve c. SE3Control_init solve quad = Inr c \<longrightarrow> f_to_TM c = ?F"
    using init_Inr F by fastforce
  with F shape entries show ?thesis by blast
qed

lemma example_build:
  "build_f_to_TM example_params =
     Inr [[1, 1, 1, 1], [1 / 10, 1 / 10, - 1 / 10, - 1 / 10],
          [- 1 / 10, 1 / 10, 1 / 10, - 1 / 10], [1 / 10, - 1 / 10, 1 / 10, - 1 / 10]]"
  by (simp add: build_f_to_TM_def Let_def example_params_def upt_4)

lemma example_init: "\<not> isl (SE3Control_init exact_solve example_params)"
  by (simp add: SE3Control_init_def example_build linalg_inv_4x4 det4_expand)



text \<open>The matrix of the example quadrotor, at its third rotor.\<close>

theorem f_to_TM_structure_witness:
  "k_eta example_params \<noteq> 0 \<and> rotor_pos example_params \<noteq> []
   \<and> int (length (rotor_pos example_params)) = num_rotors example_params
   \<and> (\<exists>F. build_f_to_TM example_params = Inr F \<and> length F = 4
           \<and> F ! 0 ! 2 = 1 \<and> F ! 1 ! 2 = - 1 / 10 \<and> F ! 2 ! 2 = 1 / 10 \<and> F ! 3 ! 2 = 1 / 10)"
proof -
  have h: "k_eta example_params \<noteq> 0" "rotor_pos example_params \<noteq> []"
    "int (length (rotor_pos example_params)) = num_rotors example_params"
    by (simp_all add: example_params_def)
  from f_to_TM_structure [OF h] obtain F where
    F: "build_f_to_TM example_params = Inr F" "length F = 4"
    and e: "\<forall>i < nat (num_rotors example_params).
                 F ! 0 ! i = 1
               \<and> F ! 1 ! i = vec_x (cross (snd (rotor_pos example_params ! i)) (Vec3 0 0 1))
               \<and> F ! 2 ! i = vec_y (cross (snd (rotor_pos example_params ! i)) (Vec3 0 0 1))
               \<and> F ! 3 ! i = k_m example_params / k_eta example_params * (- 1) ^ i"
    by blast
  have "(2::nat) < nat (num_rotors example_params)" by (simp add: example_params_def)
  with e have "F ! 0 ! 2 = 1
               \<and> F ! 1 ! 2 = vec_x (cross (snd (rotor_pos example_params ! 2)) (Vec3 0 0 1))
               \<and> F ! 2 ! 2 = vec_y (cross (snd (rotor_pos example_params ! 2)) (Vec3 0 0 1))
               \<and> F ! 3 ! 2 = k_m example_params / k_eta example_params * (- 1) ^ 2"
    by blast
  then have "F ! 0 ! 2 = 1 \<and> F ! 1 ! 2 = - 1 / 10 \<and> F ! 2 ! 2 = 1 / 10 \<and> F ! 3 ! 2 = 1 / 10"
    by (simp add: example_params_def)
  with h F show ?thesis by blast
qed



text \<open>Six rotors: the 4x6 matrix is built, and construction fails on its inversion.\<close>

theorem only_four_rotors_witness:
  "num_rotors hexa_params \<noteq> 4 \<and> SE3Control_init exact_solve hexa_params = Inl LinAlgError"
proof -
  have n: "num_rotors hexa_params \<noteq> 4" by (simp add: hexa_params_def)
  have "\<exists>F. build_f_to_TM hexa_params = Inr F"
    by (simp add: build_f_to_TM_Inr hexa_params_def example_params_def)
  with only_four_rotors [OF n, of exact_solve] n show ?thesis by blast
qed

text \<open>
  Claim C7, as stated, fails: with a negative mass and an inertia tensor that is not
  positive definite, on the rotor layout of the example, construction succeeds.
\<close>

theorem configuration_unchecked:
  "\<not> isl (SE3Control_init exact_solve (example_params\<lparr>mass := - 1, Ixx := - 1, Iyy := 0, Izz := 0\<rparr>))"
  by (simp add: SE3Control_init_def build_f_to_TM_def Let_def example_params_def upt_4 linalg_inv_4x4 det4_expand)

text \<open>Three rotors: construction fails.\<close>

theorem construction_ignores_mass_and_inertia_witness:
  "num_rotors tri_params < 4 \<and> isl (SE3Control_init exact_solve tri_params)"
proof -
  have n: "num_rotors tri_params < 4" by (simp add: tri_params_def)
  with construction_ignores_mass_and_inertia [of exact_solve 0 0 0 0 0 0 0 tri_params]
  show ?thesis by blast
qed

subsection \<open>Floats, norms and the desired rotation\<close>

lemma sub_Fin [simp]: "Fin a - Fin b = Fin (a - b)"
  by (simp add: minus_npfloat_def)

lemma add_NaN_right [simp]: "x + NaN = NaN"
  by (cases x) simp_all

lemma times_NaN_right [simp]: "x * NaN = NaN"
  by (cases x) simp_all

lemma divide_NaN_right [simp]: "x / NaN = NaN"
  by (cases x) simp_all

lemma sub_NaN [simp]: "x - NaN = NaN" "NaN - x = NaN"
  by (simp_all add: minus_npfloat_def)


lemma divide_zero_not_finite: "\<not> is_finite (Fin a / Fin 0)"
  by simp

lemma double_overflow_pos: "0 < double_overflow"
  by (simp add: double_overflow_def)

lemma round_range_zero [simp]: "round_range 0 = Fin 0"
  using double_overflow_pos by (simp add: round_range_def double_underflow_def)

lemma round_range_cases:
  assumes "0 \<le> r"
  obtains "round_range r = PInf" | "round_range r = Fin 0" | "round_range r = Fin r"
proof -
  have "round_range r = PInf \<or> round_range r = Fin 0 \<or> round_range r = Fin r"
    using assms double_overflow_pos by (simp add: round_range_def)
  then show ?thesis using that by blast
qed

lemma round_range_idem: "round_range r = Fin r \<Longrightarrow> to_double (Fin r) = Fin r"
  by simp

lemma norm3_axis_cases:
  obtains "norm3 (Vec3 (Fin 0) (Fin 0) (Fin w)) = PInf"
  | "norm3 (Vec3 (Fin 0) (Fin 0) (Fin w)) = Fin 0"
  | "norm3 (Vec3 (Fin 0) (Fin 0) (Fin w)) = Fin \<bar>w\<bar>"
proof -
  have "0 \<le> w * w" by simp
  then show ?thesis
  proof (cases rule: round_range_cases)
    case 1
    then have "norm3 (Vec3 (Fin 0) (Fin 0) (Fin w)) = PInf" by simp
    then show ?thesis by (rule that(1))
  next
    case 2
    then have "norm3 (Vec3 (Fin 0) (Fin 0) (Fin w)) = Fin 0" by simp
    then show ?thesis by (rule that(2))
  next
    case 3
    then have "norm3 (Vec3 (Fin 0) (Fin 0) (Fin w)) = Fin \<bar>w\<bar>" by simp
    then show ?thesis by (rule that(3))
  qed
qed

lemma norm3_zero: "norm3 (Vec3 (Fin 0) (Fin 0) (Fin 0)) = Fin 0"
  by simp

lemma norm3_nan [simp]: "norm3 (Vec3 NaN NaN x) = NaN"
  by simp

text \<open>
  The second and the third column of the desired rotation are \<open>b2_des\<close> and \<open>b3_des\<close>.
\<close>

lemma transpose3_columns:
  "\<exists>p r t. transpose3 (Mat3 b1 b2 b3) =
     Mat3 (Vec3 p (vec_x b2) (vec_x b3)) (Vec3 r (vec_y b2) (vec_y b3))
          (Vec3 t (vec_z b2) (vec_z b3))"
  by (cases b1; cases b2; cases b3) simp

lemma rotation_columns:
  "\<exists>p r t. desired_rotation F psi =
     Mat3 (Vec3 p (vec_x (normalize (cross (normalize F) (Vec3 (Fin (cos psi)) (Fin (sin psi)) (Fin 0)))))
                  (vec_x (normalize F)))
          (Vec3 r (vec_y (normalize (cross (normalize F) (Vec3 (Fin (cos psi)) (Fin (sin psi)) (Fin 0)))))
                  (vec_y (normalize F)))
          (Vec3 t (vec_z (normalize (cross (normalize F) (Vec3 (Fin (cos psi)) (Fin (sin psi)) (Fin 0)))))
                  (vec_z (normalize F)))"
  unfolding desired_rotation_def Let_def by (rule transpose3_columns)

subsection \<open>The control step at hover\<close>

lemma init_fields:
  assumes "SE3Control_init solve quad = Inr self"
  shows "mass self = mass quad" and "g self = 981 / 100" and "k_eta self = k_eta quad"
    and "kp_pos self = Vec3 (13 / 2) (13 / 2) 15" and "kd_pos self = Vec3 4 4 9"
    and "kp_att self = 544" and "kd_att self = 4664 / 100"
    and "inertia self = Mat3 (Vec3 (Ixx quad) (Ixy quad) (Ixz quad))
                          (Vec3 (Ixy quad) (Iyy quad) (Iyz quad))
                          (Vec3 (Ixz quad) (Iyz quad) (Izz quad))"
  using assms
  by (auto simp add: SE3Control_init_def quad_params.defs SE3Control.defs split: sum.splits)

lemma init_TM_to_f_shape:
  assumes "SE3Control_init solve quad = Inr self"
  shows "\<exists>r0 r1 r2 r3. TM_to_f self = [r0, r1, r2, r3] \<and> length r0 = 4 \<and> length r1 = 4
           \<and> length r2 = 4 \<and> length r3 = 4"
proof -
  from init_Inr [OF assms] obtain F T where
    F: "build_f_to_TM quad = Inr F" and T: "linalg_inv solve F = Inr T" and c: "TM_to_f self = T"
    by blast
  have "length F = 4" using build_f_to_TM_shape [OF F] by simp
  with linalg_inv_Inr(2) [OF T] obtain W where
    "T = map (\<lambda>i. map (\<lambda>j. W i j) [0..<4]) [0..<4]" by auto
  then show ?thesis unfolding c by (simp add: upt_4)
qed

lemma matvec_4x4:
  assumes "length r0 = 4" "length r1 = 4" "length r2 = 4" "length r3 = 4"
  shows "matvec [r0, r1, r2, r3] [u0, u1, u2, u3] =
           Inr (map (\<lambda>row. np_dot (map Fin row) [u0, u1, u2, u3]) [r0, r1, r2, r3])"
  using assms by (simp add: matvec_def)

lemma hover_force:
  assumes "SE3Control_init solve quad = Inr self"
    and "st_x st = fl_x flat" and "st_v st = x_dot flat" and "x_ddot flat = Vec3 0 0 0"
  shows "desired_force self st flat = Vec3 (Fin 0) (Fin 0) (Fin (mass quad * (981 / 100)))"
  using assms(2-4)
  by (cases "fl_x flat"; cases "x_dot flat")
     (simp add: desired_force_def init_fields [OF assms(1)])

text \<open>
  When the desired rotation for a vertical force is a matrix of finite entries, the norm
  of the force has neither underflowed nor overflowed, and the third column of the
  rotation is the vertical unit vector of the sign of the force.
\<close>

lemma hover_rotation:
  assumes w: "w \<noteq> 0"
    and fin: "map_mat3 Fin Rq = desired_rotation (Vec3 (Fin 0) (Fin 0) (Fin w)) psi"
  shows "\<exists>a b c d e f. Rq = Mat3 (Vec3 a b 0) (Vec3 c d 0) (Vec3 e f (sgn w))"
proof -
  let ?F = "Vec3 (Fin 0) (Fin 0) (Fin w)"
  let ?c1 = "Vec3 (Fin (cos psi)) (Fin (sin psi)) (Fin 0)"
  from rotation_columns [of ?F psi] obtain p r t where
    cols: "desired_rotation ?F psi =
     Mat3 (Vec3 p (vec_x (normalize (cross (normalize ?F) ?c1))) (vec_x (normalize ?F)))
          (Vec3 r (vec_y (normalize (cross (normalize ?F) ?c1))) (vec_y (normalize ?F)))
          (Vec3 t (vec_z (normalize (cross (normalize ?F) ?c1))) (vec_z (normalize ?F)))"
    by blast
  obtain r0 r1 r2 where Rq: "Rq = Mat3 r0 r1 r2" by (cases Rq)
  obtain a b c where r0: "r0 = Vec3 a b c" by (cases r0)
  obtain d e f where r1: "r1 = Vec3 d e f" by (cases r1)
  obtain g0 h i where r2: "r2 = Vec3 g0 h i" by (cases r2)
  note eq = fin [unfolded cols Rq r0 r1 r2, simplified]
  show ?thesis
  proof (cases rule: norm3_axis_cases [of w])
    case 1
    then have "normalize ?F = Vec3 (Fin 0) (Fin 0) (Fin 0)" by (simp add: normalize_def)
    then have "normalize (cross (normalize ?F) ?c1) = Vec3 NaN NaN NaN"
      by (simp add: normalize_def)
    with eq show ?thesis by simp
  next
    case 2
    then have "vec_x (normalize ?F) = NaN" by (simp add: normalize_def)
    with eq show ?thesis by simp
  next
    case 3
    have "w / \<bar>w\<bar> = sgn w" using w by (simp add: sgn_if)
    with 3 w have "normalize ?F = Vec3 (Fin 0) (Fin 0) (Fin (sgn w))"
      by (simp add: normalize_def)
    with eq show ?thesis unfolding Rq r0 r1 r2 by simp
  qed
qed

lemma finite_attitude_error:
  "vee_map (scale_mat3 (Fin (1 / 2))
      (sub_mat3 (matmul3 (transpose3 (map_mat3 Fin Rq)) (map_mat3 Fin Rq))
                (matmul3 (transpose3 (map_mat3 Fin Rq)) (map_mat3 Fin Rq))))
     = Vec3 (Fin 0) (Fin 0) (Fin 0)"
proof (cases Rq)
  case (Mat3 r0 r1 r2)
  then show ?thesis by (cases r0; cases r1; cases r2) simp
qed

lemma hover_update:
  assumes init: "SE3Control_init solve quad = Inr self" and m: "mass quad \<noteq> 0"
    and x: "st_x st = fl_x flat" and v: "st_v st = x_dot flat"
    and w: "st_w st = Vec3 0 0 0"
    and a: "x_ddot flat = Vec3 0 0 0" and r: "yaw_dot flat = 0"
    and q: "from_quat_as_matrix (st_q st) = Inr Rq"
    and att: "map_mat3 Fin Rq = desired_rotation (desired_force self st flat) (yaw flat)"
    and lib: "from_matrix_as_quat (desired_rotation (desired_force self st flat) (yaw flat)) = Inr quat"
  shows "\<exists>out. update from_matrix_as_quat self t st flat = Inr (out, self)
           \<and> cmd_thrust out = Fin (\<bar>mass quad\<bar> * (981 / 100))
           \<and> cmd_moment out = Vec3 (Fin 0) (Fin 0) (Fin 0)"
proof -
  let ?w = "mass quad * (981 / 100)"
  have w0: "?w \<noteq> 0" using m by simp
  have sg: "sgn ?w = sgn (mass quad)" by (simp add: sgn_mult)
  have F: "desired_force self st flat = Vec3 (Fin 0) (Fin 0) (Fin ?w)"
    using init x v a by (rule hover_force)
  from hover_rotation [OF w0 att [unfolded F]] obtain a b c d e f where
    Rq: "Rq = Mat3 (Vec3 a b 0) (Vec3 c d 0) (Vec3 e f (sgn ?w))" by blast
  from init_TM_to_f_shape [OF init] obtain r0 r1 r2 r3 where
    T: "TM_to_f self = [r0, r1, r2, r3]" "length r0 = 4" "length r1 = 4" "length r2 = 4" "length r3 = 4"
    by blast
  note S = finite_attitude_error [of Rq]
  have u2: "matvec3 (map_mat3 Fin (inertia self))
              (sub3 (scale3 (- Fin (kp_att self)) (Vec3 (Fin 0) (Fin 0) (Fin 0)))
                    (scale3 (Fin (kd_att self)) (sub3 (map_vec3 Fin (st_w st)) (Vec3 (Fin 0) (Fin 0) (Fin (yaw_dot flat))))))
            = Vec3 (Fin 0) (Fin 0) (Fin 0)"
    by (simp add: init_fields [OF init] w r)
  have "?w * sgn ?w = \<bar>mass quad\<bar> * (981 / 100)"
    unfolding sg by (simp add: sgn_if)
  then have u1: "dot3 (desired_force self st flat) (matvec3 (map_mat3 Fin Rq) (Vec3 (Fin 0) (Fin 0) (Fin 1)))
          = Fin (\<bar>mass quad\<bar> * (981 / 100))"
    unfolding F Rq by simp
  show ?thesis
    unfolding update_def Let_def q sum.case att [symmetric] S u2 u1
    unfolding att lib T(1)
    by (simp add: matvec_4x4 T(2-))
qed

lemma example_control_init: "SE3Control_init exact_solve example_params = Inr example_control"
  using example_init
  by (cases "SE3Control_init exact_solve example_params") (simp_all add: example_control_def)

lemma negative_mass_control_init:
  "SE3Control_init exact_solve negative_mass_params = Inr negative_mass_control"
proof -
  have "\<not> isl (SE3Control_init exact_solve negative_mass_params)"
    by (simp add: SE3Control_init_def build_f_to_TM_def Let_def negative_mass_params_def
          example_params_def upt_4 linalg_inv_4x4 det4_expand)
  then show ?thesis
    by (cases "SE3Control_init exact_solve negative_mass_params")
       (simp_all add: negative_mass_control_def)
qed

lemma matrix_as_quat_returns: "\<exists>quat. matrix_as_quat (map_mat3 Fin Rq) = Inr quat"
proof (cases Rq)
  case (Mat3 r0 r1 r2)
  then show ?thesis by (cases r0; cases r1; cases r2) (simp add: Let_def)
qed

lemma upright_quat:
  "from_quat_as_matrix (Vec4 0 0 0 1) = Inr (Mat3 (Vec3 1 0 0) (Vec3 0 1 0) (Vec3 0 0 1))"
  by simp

lemma flipped_quat:
  "from_quat_as_matrix (Vec4 1 0 0 0) = Inr (Mat3 (Vec3 1 0 0) (Vec3 0 (- 1) 0) (Vec3 0 0 (- 1)))"
  by simp

lemma round_range_one [simp]: "round_range 1 = Fin 1"
  by (simp add: round_range_def double_overflow_def double_underflow_def)

lemma vertical_rotation:
  assumes "double_underflow < w * w" and "w * w < double_overflow"
  shows "desired_rotation (Vec3 (Fin 0) (Fin 0) (Fin w)) 0 =
           Mat3 (Vec3 (Fin 1) (Fin 0) (Fin 0)) (Vec3 (Fin 0) (Fin (sgn w)) (Fin 0))
                (Vec3 (Fin 0) (Fin 0) (Fin (sgn w)))"
proof -
  have pos: "0 < double_underflow" by (simp add: double_underflow_def)
  with assms(1) have w: "w \<noteq> 0" by auto
  have s2: "sgn w * sgn w = 1" using w by (simp add: sgn_if)
  have "round_range (w * w) = Fin (w * w)"
    using assms pos by (simp add: round_range_def)
  then have n: "norm3 (Vec3 (Fin 0) (Fin 0) (Fin w)) = Fin \<bar>w\<bar>" by simp
  have d: "Fin w / Fin \<bar>w\<bar> = Fin (sgn w)" "Fin 0 / Fin \<bar>w\<bar> = Fin 0"
    using w by (simp_all add: sgn_if)
  have b3: "normalize (Vec3 (Fin 0) (Fin 0) (Fin w)) = Vec3 (Fin 0) (Fin 0) (Fin (sgn w))"
    unfolding normalize_def n by (simp only: vec3.map d)
  have b2: "normalize (Vec3 (Fin 0) (Fin (sgn w)) (Fin 0)) = Vec3 (Fin 0) (Fin (sgn w)) (Fin 0)"
    using w by (simp add: normalize_def)
  show ?thesis
    using w by (simp add: desired_rotation_def Let_def b3 b2)
qed

text \<open>
  Claim C1, as the code has it.  On a controller of positive mass, when the position,
  velocity and angular velocity errors are zero, the desired acceleration and yaw rate are
  zero, and the current orientation is the desired one, \<open>update\<close> returns the thrust
  \<open>mass * g\<close> and the zero moment (given that the library converts the desired
  rotation to a quaternion).
\<close>

theorem hover_command:
  assumes "SE3Control_init solve quad = Inr self" and "0 < mass quad"
    and "st_x st = fl_x flat" and "st_v st = x_dot flat"
    and "st_w st = Vec3 0 0 0"
    and "x_ddot flat = Vec3 0 0 0" and "yaw_dot flat = 0"
    and "from_quat_as_matrix (st_q st) = Inr Rq"
    and "map_mat3 Fin Rq = desired_rotation (desired_force self st flat) (yaw flat)"
    and "from_matrix_as_quat (desired_rotation (desired_force self st flat) (yaw flat)) = Inr quat"
  shows "\<exists>out. update from_matrix_as_quat self t st flat = Inr (out, self)
           \<and> cmd_thrust out = Fin (mass self * g self)
           \<and> cmd_moment out = Vec3 (Fin 0) (Fin 0) (Fin 0)"
proof -
  have m: "mass quad \<noteq> 0" using assms(2) by simp
  have e: "\<bar>mass quad\<bar> * (981 / 100) = mass self * g self"
    using assms(2) unfolding init_fields(1,2) [OF assms(1)] by simp
  show ?thesis
    using hover_update [where from_matrix_as_quat = from_matrix_as_quat and t = t,
      OF assms(1) m assms(3-10)]
    unfolding e .
qed

lemma example_hover:
  shows "st_x hover_state = fl_x hover_flat" and "st_v hover_state = x_dot hover_flat"
    and "st_w hover_state = Vec3 0 0 0" and "x_ddot hover_flat = Vec3 0 0 0"
    and "yaw_dot hover_flat = 0"
    and "from_quat_as_matrix (st_q hover_state) = Inr (Mat3 (Vec3 1 0 0) (Vec3 0 1 0) (Vec3 0 0 1))"
    and "map_mat3 Fin (Mat3 (Vec3 1 0 0) (Vec3 0 1 0) (Vec3 0 0 1))
           = desired_rotation (desired_force example_control hover_state hover_flat) (yaw hover_flat)"
proof -
  show h: "st_x hover_state = fl_x hover_flat" "st_v hover_state = x_dot hover_flat"
    "st_w hover_state = Vec3 0 0 0" "x_ddot hover_flat = Vec3 0 0 0" "yaw_dot hover_flat = 0"
    by (simp_all add: hover_state_def hover_flat_def)
  show "from_quat_as_matrix (st_q hover_state) = Inr (Mat3 (Vec3 1 0 0) (Vec3 0 1 0) (Vec3 0 0 1))"
    unfolding hover_state_def by (simp del: from_quat_as_matrix.simps add: upright_quat)
  have F: "desired_force example_control hover_state hover_flat
             = Vec3 (Fin 0) (Fin 0) (Fin (mass example_params * (981 / 100)))"
    using example_control_init h(1,2,4) by (rule hover_force)
  have y: "yaw hover_flat = 0" by (simp add: hover_flat_def)
  show "map_mat3 Fin (Mat3 (Vec3 1 0 0) (Vec3 0 1 0) (Vec3 0 0 1))
           = desired_rotation (desired_force example_control hover_state hover_flat) (yaw hover_flat)"
    unfolding F y
    by (subst vertical_rotation)
       (simp_all add: example_params_def double_underflow_def double_overflow_def)
qed

text \<open>The example quadrotor, upright and at rest where it is asked to hover.\<close>

theorem hover_command_witness:
  "SE3Control_init exact_solve example_params = Inr example_control \<and> 0 < mass example_params
   \<and> st_x hover_state = fl_x hover_flat \<and> st_v hover_state = x_dot hover_flat
   \<and> st_w hover_state = Vec3 0 0 0 \<and> x_ddot hover_flat = Vec3 0 0 0 \<and> yaw_dot hover_flat = 0
   \<and> map_sum id (map_mat3 Fin) (from_quat_as_matrix (st_q hover_state))
       = Inr (desired_rotation (desired_force example_control hover_state hover_flat) (yaw hover_flat))
   \<and> (\<exists>out. update matrix_as_quat example_control 0 hover_state hover_flat
               = Inr (out, example_control)
           \<and> cmd_thrust out = Fin (mass example_control * g example_control)
           \<and> cmd_thrust out = Fin (981 / 200)
           \<and> cmd_moment out = Vec3 (Fin 0) (Fin 0) (Fin 0))"
proof -
  note init = example_control_init
  note h = example_hover(1-5) and q = example_hover(6) and att = example_hover(7)
  have m: "0 < mass example_params" by (simp add: example_params_def)
  obtain quat where lib: "matrix_as_quat
      (desired_rotation (desired_force example_control hover_state hover_flat) (yaw hover_flat)) = Inr quat"
    unfolding att [symmetric] using matrix_as_quat_returns by blast
  from hover_command [where from_matrix_as_quat = matrix_as_quat and t = 0,
      OF init m h q att lib] obtain out where
    out: "update matrix_as_quat example_control 0 hover_state hover_flat = Inr (out, example_control)"
      "cmd_thrust out = Fin (mass example_control * g example_control)"
      "cmd_moment out = Vec3 (Fin 0) (Fin 0) (Fin 0)"
    by blast
  have "mass example_control * g example_control = 981 / 200"
    by (simp add: init_fields(1,2) [OF init] example_params_def)
  with out init m h q att show ?thesis by (auto simp del: from_quat_as_matrix.simps)
qed

text \<open>
  Claim C1, as stated, fails on a controller of negative mass, which the constructor
  accepts.  The desired force then points down, the desired orientation is upside down,
  and in that orientation the thrust is \<open>9.81\<close>, not \<open>mass * g = -9.81\<close>.
\<close>

theorem hover_thrust_negative_mass:
  "SE3Control_init exact_solve negative_mass_params = Inr negative_mass_control
   \<and> st_x flipped_state = fl_x hover_flat \<and> st_v flipped_state = x_dot hover_flat
   \<and> st_w flipped_state = Vec3 0 0 0 \<and> x_ddot hover_flat = Vec3 0 0 0 \<and> yaw_dot hover_flat = 0
   \<and> map_sum id (map_mat3 Fin) (from_quat_as_matrix (st_q flipped_state))
       = Inr (desired_rotation (desired_force negative_mass_control flipped_state hover_flat)
                (yaw hover_flat))
   \<and> map_sum id (\<lambda>r. cmd_thrust (fst r))
        (update matrix_as_quat negative_mass_control 0 flipped_state hover_flat)
       = Inr (Fin (981 / 100))
   \<and> Fin (mass negative_mass_control * g negative_mass_control) = Fin (- 981 / 100)"
proof -
  note init = negative_mass_control_init
  have m: "mass negative_mass_params \<noteq> 0" by (simp add: negative_mass_params_def)
  have h: "st_x flipped_state = fl_x hover_flat" "st_v flipped_state = x_dot hover_flat"
    "st_w flipped_state = Vec3 0 0 0" "x_ddot hover_flat = Vec3 0 0 0" "yaw_dot hover_flat = 0"
    by (simp_all add: flipped_state_def hover_state_def hover_flat_def)
  have q: "from_quat_as_matrix (st_q flipped_state)
             = Inr (Mat3 (Vec3 1 0 0) (Vec3 0 (- 1) 0) (Vec3 0 0 (- 1)))"
    unfolding flipped_state_def hover_state_def
    by (simp del: from_quat_as_matrix.simps add: flipped_quat)
  have F: "desired_force negative_mass_control flipped_state hover_flat
             = Vec3 (Fin 0) (Fin 0) (Fin (mass negative_mass_params * (981 / 100)))"
    using init h(1,2,4) by (rule hover_force)
  have y: "yaw hover_flat = 0" by (simp add: hover_flat_def)
  have att: "map_mat3 Fin (Mat3 (Vec3 1 0 0) (Vec3 0 (- 1) 0) (Vec3 0 0 (- 1)))
           = desired_rotation (desired_force negative_mass_control flipped_state hover_flat)
               (yaw hover_flat)"
    unfolding F y
    by (subst vertical_rotation)
       (simp_all add: negative_mass_params_def double_underflow_def double_overflow_def)
  obtain quat where lib: "matrix_as_quat
      (desired_rotation (desired_force negative_mass_control flipped_state hover_flat)
         (yaw hover_flat)) = Inr quat"
    unfolding att [symmetric] using matrix_as_quat_returns by blast
  from hover_update [where from_matrix_as_quat = matrix_as_quat and t = 0,
      OF init m h q att lib] obtain out where
    out: "update matrix_as_quat negative_mass_control 0 flipped_state hover_flat
            = Inr (out, negative_mass_control)"
      "cmd_thrust out = Fin (\<bar>mass negative_mass_params\<bar> * (981 / 100))"
    by blast
  have t: "map_sum id (\<lambda>r. cmd_thrust (fst r))
        (update matrix_as_quat negative_mass_control 0 flipped_state hover_flat)
       = Inr (Fin (981 / 100))"
    unfolding out(1) by (simp add: out(2) negative_mass_params_def)
  have "mass negative_mass_control * g negative_mass_control = - 981 / 100"
    by (simp add: init_fields(1,2) [OF init] negative_mass_params_def)
  with t init h q att show ?thesis by (auto simp del: from_quat_as_matrix.simps)
qed

subsection \<open>The control step when the norm of the desired force is zero\<close>















subsection \<open>The control step is a function of its arguments\<close>

lemma example_hover_returns:
  "\<exists>out. update matrix_as_quat example_control 0 hover_state hover_flat = Inr (out, example_control)"
proof -
  have m: "mass example_params \<noteq> 0" by (simp add: example_params_def)
  obtain quat where lib: "matrix_as_quat
      (desired_rotation (desired_force example_control hover_state hover_flat) (yaw hover_flat)) = Inr quat"
    unfolding example_hover(7) [symmetric] using matrix_as_quat_returns by blast
  from hover_update [where from_matrix_as_quat = matrix_as_quat and t = 0,
      OF example_control_init m example_hover lib]
  show ?thesis by blast
qed

text \<open>
  Claim C8.  The result of \<open>update\<close> does not depend on the time argument, the
  controller object a call leaves behind is the one it was given, and so a later call with
  the same state and flat output returns the same command, whatever calls came before.
\<close>

theorem update_pure:
  "update from_matrix_as_quat self t st flat = update from_matrix_as_quat self t' st flat
   \<and> (\<forall>out self'. update from_matrix_as_quat self t st flat = Inr (out, self') \<longrightarrow>
         self' = self
       \<and> update from_matrix_as_quat self' t' st flat = Inr (out, self'))"
  by (auto simp add: update_def Let_def split: sum.splits)

text \<open>Two calls in a row on the example quadrotor at hover, at times 0 and 1.\<close>

theorem update_pure_witness:
  "\<exists>out. update matrix_as_quat example_control 0 hover_state hover_flat = Inr (out, example_control)
         \<and> update matrix_as_quat example_control 1 hover_state hover_flat = Inr (out, example_control)"
proof -
  from example_hover_returns obtain out where
    out: "update matrix_as_quat example_control 0 hover_state hover_flat = Inr (out, example_control)"
    by blast
  from update_pure [of matrix_as_quat example_control 0 hover_state hover_flat 1]
  have "\<forall>out self'. update matrix_as_quat example_control 0 hover_state hover_flat = Inr (out, self') \<longrightarrow>
         self' = example_control
       \<and> update matrix_as_quat self' 1 hover_state hover_flat = Inr (out, self')"
    by (rule conjunct2)
  with out have "update matrix_as_quat example_control 1 hover_state hover_flat = Inr (out, example_control)"
    by blast
  with out show ?thesis by blast
qed

end
